theory Spec2Isabelle
  imports Main "HOL-Library.Sublist"
begin

section \<open>JavaScript strings\<close>

text \<open>
  The script \<^verbatim>\<open>scripts/set-rn-version.js\<close> works on JavaScript strings. They are
  modelled as \<^typ>\<open>string\<close>; file contents are taken to be ASCII, so that one
  \<^typ>\<open>char\<close> is one code unit and the only line terminators are line feed and
  carriage return.
\<close>

text \<open>\<^verbatim>\<open>String.prototype.indexOf\<close>: the first position where the pattern starts.\<close>

fun indexOf :: "string \<Rightarrow> string \<Rightarrow> nat option" where
  "indexOf [] pat = (if pat = [] then Some 0 else None)"
| "indexOf (c # cs) pat =
     (if prefix pat (c # cs) then Some 0 else map_option Suc (indexOf cs pat))"

text \<open>
  \<^verbatim>\<open>GetSubstitution\<close> of ECMAScript for a match without capture groups: in the
  replacement text \<^verbatim>\<open>$$\<close> stands for a dollar sign, \<^verbatim>\<open>$&\<close> for the matched
  text, \<^verbatim>\<open>$`\<close> for the text that precedes the match and \<^verbatim>\<open>$'\<close> for the
  text that follows it. Every other character, a dollar sign before anything else included, stands for
  itself.
\<close>

fun getSubstitution :: "string \<Rightarrow> string \<Rightarrow> string \<Rightarrow> string \<Rightarrow> string" where
  "getSubstitution matched preceding following [] = []"
| "getSubstitution matched preceding following [c] = [c]"
| "getSubstitution matched preceding following (c # d # r) =
     (if c = CHR ''$'' then
        (if d = CHR ''$'' then CHR ''$'' # getSubstitution matched preceding following r
         else if d = CHR ''&'' then matched @ getSubstitution matched preceding following r
         else if d = CHR 0x60 then preceding @ getSubstitution matched preceding following r
         else if d = CHR 0x27 then following @ getSubstitution matched preceding following r
         else c # getSubstitution matched preceding following (d # r))
      else c # getSubstitution matched preceding following (d # r))"

text \<open>
  \<^verbatim>\<open>String.prototype.replace\<close> with a string pattern and a string replacement: only
  the first occurrence of the pattern is replaced, by the expansion of the replacement.
\<close>

definition js_replace :: "string \<Rightarrow> string \<Rightarrow> string \<Rightarrow> string" where
  "js_replace s pat repl =
     (case indexOf s pat of
        None \<Rightarrow> s
      | Some pos \<Rightarrow>
          (let preceding = take pos s; following = drop (pos + length pat) s
           in preceding @ getSubstitution pat preceding following repl @ following))"

text \<open>
  Conversion of a non-negative integer to a string: its decimal digits. JavaScript
  writes a number so for the integers up to \<open>2\<^sup>5\<^sup>3\<close>, which a number holds exactly;
  above that it rounds the digits and, from \<open>10\<^sup>2\<^sup>1\<close> on, writes an exponent, which
  this function does not follow.
\<close>

definition digit_char :: "nat \<Rightarrow> char" where
  "digit_char d = ''0123456789'' ! d"

fun number_toString :: "nat \<Rightarrow> string" where
  "number_toString n =
     (if n < 10 then [digit_char n]
      else number_toString (n div 10) @ [digit_char (n mod 10)])"

declare number_toString.simps [simp del]

text \<open>\<^verbatim>\<open>Array.prototype.join\<close>, \<^verbatim>\<open>String.prototype.split\<close> at line feeds.\<close>

fun join :: "string \<Rightarrow> string list \<Rightarrow> string" where
  "join sep [] = []"
| "join sep [x] = x"
| "join sep (x # y # ys) = x @ sep @ join sep (y # ys)"

fun split_lines :: "string \<Rightarrow> string list" where
  "split_lines [] = [[]]"
| "split_lines (c # cs) =
     (if c = CHR 0x0A then [] # split_lines cs
      else (case split_lines cs of
              [] \<Rightarrow> [[c]]
            | l # ls \<Rightarrow> (c # l) # ls))"

section \<open>The version record\<close>

text \<open>
  Modelled from the spec: the record returned by \<^verbatim>\<open>parseVersion\<close> of
  \<^verbatim>\<open>scripts/version-utils.js\<close>, which is not part of the sources at hand. The
  spec gives it three non-negative integers, an optional prerelease string and the
  canonical version string.
\<close>

record VersionRecord =
  version :: string
  major :: nat
  minor :: nat
  patch :: nat
  prerelease :: "string option"

section \<open>The four source-constant renderers\<close>

definition placeholders :: "string list" where
  "placeholders = [''${major}'', ''${minor}'', ''${patch}'', ''${prerelease}'']"

text \<open>The literal each format gives the prerelease, lines 73, 86, 99 and 112.\<close>

definition java_prerelease :: "string option \<Rightarrow> string" where
  "java_prerelease p =
     (case p of Some s \<Rightarrow> CHR 0x22 # s @ [CHR 0x22] | None \<Rightarrow> ''null'')"

definition objc_prerelease :: "string option \<Rightarrow> string" where
  "objc_prerelease p =
     (case p of Some s \<Rightarrow> CHR ''@'' # CHR 0x22 # s @ [CHR 0x22] | None \<Rightarrow> ''[NSNull null]'')"

definition cxx_prerelease :: "string option \<Rightarrow> string" where
  "cxx_prerelease p =
     (case p of Some s \<Rightarrow> CHR 0x22 # s @ [CHR 0x22] | None \<Rightarrow> [CHR 0x22, CHR 0x22])"

definition script_prerelease :: "string option \<Rightarrow> string" where
  "script_prerelease p =
     (case p of Some s \<Rightarrow> CHR 0x27 # s @ [CHR 0x27] | None \<Rightarrow> ''null'')"

definition objc_number :: "nat \<Rightarrow> string" where
  "objc_number n = ''@('' @ number_toString n @ '')''"

text \<open>
  The chain of \<^verbatim>\<open>replace\<close> calls of \<^verbatim>\<open>setSource\<close>, one renderer per target:
  lines 67-74 (Java), 80-87 (Objective-C), 93-100 (C++ header), 106-113 (JavaScript).
\<close>

text \<open>
  The first three calls of a chain, with the form \<open>f\<close> the format gives a number. The
  renderers below write the calls out as the source does.
\<close>

definition render_numbers :: "(nat \<Rightarrow> string) \<Rightarrow> string \<Rightarrow> VersionRecord \<Rightarrow> string" where
  "render_numbers f template v =
     js_replace
       (js_replace
          (js_replace template ''${major}'' (f (major v)))
          ''${minor}'' (f (minor v)))
       ''${patch}'' (f (patch v))"

definition render_java :: "string \<Rightarrow> VersionRecord \<Rightarrow> string" where
  "render_java template v =
     js_replace
       (js_replace
          (js_replace
             (js_replace template ''${major}'' (number_toString (major v)))
             ''${minor}'' (number_toString (minor v)))
          ''${patch}'' (number_toString (patch v)))
       ''${prerelease}'' (java_prerelease (prerelease v))"

definition render_objc :: "string \<Rightarrow> VersionRecord \<Rightarrow> string" where
  "render_objc template v =
     js_replace
       (js_replace
          (js_replace
             (js_replace template ''${major}'' (objc_number (major v)))
             ''${minor}'' (objc_number (minor v)))
          ''${patch}'' (objc_number (patch v)))
       ''${prerelease}'' (objc_prerelease (prerelease v))"

definition render_cxx :: "string \<Rightarrow> VersionRecord \<Rightarrow> string" where
  "render_cxx template v =
     js_replace
       (js_replace
          (js_replace
             (js_replace template ''${major}'' (number_toString (major v)))
             ''${minor}'' (number_toString (minor v)))
          ''${patch}'' (number_toString (patch v)))
       ''${prerelease}'' (cxx_prerelease (prerelease v))"

definition render_script :: "string \<Rightarrow> VersionRecord \<Rightarrow> string" where
  "render_script template v =
     js_replace
       (js_replace
          (js_replace
             (js_replace template ''${major}'' (number_toString (major v)))
             ''${minor}'' (number_toString (minor v)))
          ''${patch}'' (number_toString (patch v)))
       ''${prerelease}'' (script_prerelease (prerelease v))"

section \<open>Files, output and collaborators\<close>

text \<open>
  The working directory is a map from paths to file contents. Directories are not
  modelled: a write creates or replaces the file at its path. The state also records
  what the script prints with \<^verbatim>\<open>echo\<close>, the version maps it hands to the template
  updater and the shell commands it runs with \<^verbatim>\<open>exec\<close>.
\<close>

type_synonym path = string
type_synonym filesystem = "path \<rightharpoonup> string"
type_synonym versions = "string \<rightharpoonup> string"

record state =
  files :: filesystem
  out :: "string list"
  template_updates :: "versions list"
  commands :: "string list"

datatype error =
    InvalidBuildTypeError
  | VersionFormatError
  | BuildTypeMismatchError
  | PropertiesUpdateError string
  | SyntaxError

datatype outcome = Returned | Threw error

text \<open>
  The package manifest as \<^verbatim>\<open>JSON.parse\<close> returns it: its \<^verbatim>\<open>version\<close> field, its
  dependency fields by package name, and every other field as it stands.
\<close>

record manifest =
  m_version :: "string option"
  dependencies :: versions
  other_fields :: "(string \<times> string) list"

text \<open>
  What the script requires from other modules and from the platform is a parameter:
  \<^verbatim>\<open>validateBuildType\<close> and \<^verbatim>\<open>parseVersion\<close> of \<^verbatim>\<open>version-utils\<close> (an error
  or, for the parser, a record; the spec makes both free of side effects),
  \<^verbatim>\<open>saveFiles\<close> of \<^verbatim>\<open>scm-utils\<close> and the template updater (each rewrites
  files), the name that \<^verbatim>\<open>fs.mkdtempSync\<close> returns, \<^verbatim>\<open>JSON.parse\<close> (\<open>None\<close>
  when it throws) and \<^verbatim>\<open>JSON.stringify\<close>, and the number that the unary plus of
  line 185 reads from the trimmed output of the shell pipeline (\<open>None\<close> for NaN).
\<close>

record collaborators =
  validateBuildType :: "string \<Rightarrow> error option"
  parseVersion :: "string \<Rightarrow> string \<Rightarrow> error + VersionRecord"
  tmpVersioningFolder :: path
  saveFiles :: "path \<Rightarrow> filesystem \<Rightarrow> filesystem"
  updateTemplatePackage :: "versions \<Rightarrow> filesystem \<Rightarrow> filesystem"
  JSON_parse :: "string \<Rightarrow> manifest option"
  JSON_stringify :: "manifest \<Rightarrow> string"
  exec_count :: "string \<Rightarrow> filesystem \<Rightarrow> nat option"

text \<open>
  \<^verbatim>\<open>cat\<close> of shelljs gives the empty string for a file that does not exist,
  \<^verbatim>\<open>fs.writeFileSync\<close> replaces the file, \<^verbatim>\<open>echo\<close> prints a line.
\<close>

definition cat :: "state \<Rightarrow> path \<Rightarrow> string" where
  "cat st p = (case files st p of None \<Rightarrow> [] | Some contents \<Rightarrow> contents)"

definition writeFileSync :: "path \<Rightarrow> string \<Rightarrow> state \<Rightarrow> state" where
  "writeFileSync p contents st = st\<lparr>files := (files st)(p \<mapsto> contents)\<rparr>"

definition echo :: "string \<Rightarrow> state \<Rightarrow> state" where
  "echo line st = st\<lparr>out := out st @ [line]\<rparr>"

section \<open>setSource\<close>

definition java_template :: path where
  "java_template = ''scripts/versiontemplates/ReactNativeVersion.java.template''"

definition java_file :: path where
  "java_file = ''packages/react-native/ReactAndroid/src/main/java/com/facebook/react/modules/systeminfo/ReactNativeVersion.java''"

definition objc_template :: path where
  "objc_template = ''scripts/versiontemplates/RCTVersion.m.template''"

definition objc_file :: path where
  "objc_file = ''packages/react-native/React/Base/RCTVersion.m''"

definition cxx_template :: path where
  "cxx_template = ''scripts/versiontemplates/ReactNativeVersion.h.template''"

definition cxx_file :: path where
  "cxx_file = ''packages/react-native/ReactCommon/cxxreact/ReactNativeVersion.h''"

definition script_template :: path where
  "script_template = ''scripts/versiontemplates/ReactNativeVersion.js.template''"

definition script_file :: path where
  "script_file = ''packages/react-native/Libraries/Core/ReactNativeVersion.js''"

definition setSource :: "VersionRecord \<Rightarrow> state \<Rightarrow> state" where
  "setSource v st =
     (let st1 = writeFileSync java_file (render_java (cat st java_template) v) st;
          st2 = writeFileSync objc_file (render_objc (cat st1 objc_template) v) st1;
          st3 = writeFileSync cxx_file (render_cxx (cat st2 cxx_template) v) st2
      in writeFileSync script_file (render_script (cat st3 script_template) v) st3)"

section \<open>setGradle\<close>

definition gradle_properties :: path where
  "gradle_properties = ''packages/react-native/ReactAndroid/gradle.properties''"

text \<open>
  \<^verbatim>\<open>line.replace(/^VERSION_NAME=.*/, replacement)\<close>: the pattern matches at the start
  of the string only, and the dot matches every character but a line terminator.
\<close>

definition line_terminator :: "char \<Rightarrow> bool" where
  "line_terminator c = (c = CHR 0x0A \<or> c = CHR 0x0D)"

definition replace_version_name :: "string \<Rightarrow> string \<Rightarrow> string" where
  "replace_version_name replacement line =
     (if prefix ''VERSION_NAME='' line then
        (let rest = drop (length ''VERSION_NAME='') line;
             matched = ''VERSION_NAME='' @ takeWhile (\<lambda>c. \<not> line_terminator c) rest;
             following = dropWhile (\<lambda>c. \<not> line_terminator c) rest
         in getSubstitution matched [] following replacement @ following)
      else line)"

text \<open>
  \<^verbatim>\<open>sed('-i', regex, replacement, file)\<close> of shelljs: a file that does not exist is
  an error with code 2; otherwise every line of the file goes through \<^verbatim>\<open>replace\<close>,
  the file is written back and the code is 0, whether or not a line matched.
\<close>

definition sed_inplace :: "(string \<Rightarrow> string) \<Rightarrow> path \<Rightarrow> state \<Rightarrow> (nat \<times> string) \<times> state" where
  "sed_inplace f p st =
     (case files st p of
        None \<Rightarrow> ((2, ''sed: no such file or directory: '' @ p), st)
      | Some contents \<Rightarrow>
          ((0, []), writeFileSync p (join [CHR 0x0A] (map f (split_lines contents))) st))"

definition setGradle :: "VersionRecord \<Rightarrow> state \<Rightarrow> outcome \<times> state" where
  "setGradle v st =
     (case sed_inplace (replace_version_name (''VERSION_NAME='' @ version v)) gradle_properties st of
        ((code, stderr), st') \<Rightarrow>
          if code \<noteq> 0
          then (Threw (PropertiesUpdateError stderr),
                echo ''Couldn't update version for Gradle'' st')
          else (Returned, st'))"

section \<open>setPackage\<close>

definition package_json :: path where
  "package_json = ''packages/react-native/package.json''"

text \<open>
  Modelled from the spec: \<^verbatim>\<open>applyPackageVersions\<close> of \<^verbatim>\<open>scripts/npm-utils.js\<close>,
  which is not part of the sources at hand. For each key of the overrides that is a
  dependency field of the manifest the value is replaced; keys that the manifest does
  not have are ignored.
\<close>

definition applyPackageVersions :: "manifest \<Rightarrow> versions \<Rightarrow> manifest" where
  "applyPackageVersions m overrides =
     m\<lparr>dependencies :=
         (\<lambda>name. case dependencies m name of
                    None \<Rightarrow> None
                  | Some old \<Rightarrow>
                      (case overrides name of None \<Rightarrow> Some old | Some new \<Rightarrow> Some new))\<rparr>"

definition setPackage ::
  "collaborators \<Rightarrow> VersionRecord \<Rightarrow> versions option \<Rightarrow> state \<Rightarrow> outcome \<times> state" where
  "setPackage env v dependencyVersions st =
     (case JSON_parse env (cat st package_json) of
        None \<Rightarrow> (Threw SyntaxError, st)
      | Some originalPackageJson \<Rightarrow>
          (let packageJson =
                 (case dependencyVersions of
                    Some d \<Rightarrow> applyPackageVersions originalPackageJson d
                  | None \<Rightarrow> originalPackageJson)
           in (Returned,
               writeFileSync package_json
                 (JSON_stringify env (packageJson\<lparr>m_version := Some (version v)\<rparr>)) st)))"

section \<open>setReactNativeVersion\<close>

definition filesToValidate :: "path list" where
  "filesToValidate =
     [''packages/react-native/package.json'',
      ''packages/react-native/ReactAndroid/gradle.properties'',
      ''packages/react-native/template/package.json'']"

text \<open>
  Lines 170-173: an object literal with the entry for \<^verbatim>\<open>react-native\<close> first and the
  caller's map spread after it, so that an entry of the caller's map wins.
\<close>

definition templateDependencyVersions :: "VersionRecord \<Rightarrow> versions option \<Rightarrow> versions" where
  "templateDependencyVersions v dependencyVersions =
     [''react-native'' \<mapsto> version v] ++
       (case dependencyVersions of Some d \<Rightarrow> d | None \<Rightarrow> Map.empty)"

definition validation_command :: "path \<Rightarrow> VersionRecord \<Rightarrow> string" where
  "validation_command tmp v =
     ''diff -r '' @ tmp @ '' . | grep '' @ [CHR 0x27] @ ''^[>]'' @ [CHR 0x27]
       @ '' | grep -c '' @ version v @ '' ''"

text \<open>Lines 161-176: the snapshot and the updates of the files, in the order of the source.\<close>

definition updateFiles ::
  "collaborators \<Rightarrow> VersionRecord \<Rightarrow> versions option \<Rightarrow> state \<Rightarrow> outcome \<times> state" where
  "updateFiles env v dependencyVersions st =
     (let st1 = echo (''The tmp versioning folder is '' @ tmpVersioningFolder env) st;
          st2 = st1\<lparr>files := saveFiles env (tmpVersioningFolder env) (files st1)\<rparr>;
          st3 = setSource v st2
      in case setPackage env v dependencyVersions st3 of
           (Threw e, st4) \<Rightarrow> (Threw e, st4)
         | (Returned, st4) \<Rightarrow>
             (let t = templateDependencyVersions v dependencyVersions;
                  st5 = st4\<lparr>files := updateTemplatePackage env t (files st4),
                            template_updates := template_updates st4 @ [t]\<rparr>
              in setGradle v st5))"

text \<open>Lines 178-197: the count of the changed lines and the warning.\<close>

definition validateChanges :: "collaborators \<Rightarrow> VersionRecord \<Rightarrow> state \<Rightarrow> state" where
  "validateChanges env v st =
     (let command = validation_command (tmpVersioningFolder env) v;
          numberOfChangedLinesWithNewVersion = exec_count env command (files st);
          st1 = st\<lparr>commands := commands st @ [command]\<rparr>
      in if numberOfChangedLinesWithNewVersion \<noteq> Some (length filesToValidate)
         then echo (''These files already had version '' @ version v @ '' set.'')
                (echo (''Failed to update all the files: ['' @ join '', '' filesToValidate
                         @ ''] must have versions in them'')
                   (echo ''WARNING:'' st1))
         else st1)"

definition setReactNativeVersion ::
  "collaborators \<Rightarrow> string \<Rightarrow> versions option \<Rightarrow> string \<Rightarrow> state \<Rightarrow> outcome \<times> state" where
  "setReactNativeVersion env argVersion dependencyVersions buildType st =
     (case validateBuildType env buildType of
        Some e \<Rightarrow> (Threw e, st)
      | None \<Rightarrow>
          (case parseVersion env argVersion buildType of
             Inl e \<Rightarrow> (Threw e, st)
           | Inr v \<Rightarrow>
               (case updateFiles env v dependencyVersions st of
                  (Threw e, st') \<Rightarrow> (Threw e, st')
                | (Returned, st') \<Rightarrow> (Returned, validateChanges env v st'))))"

text \<open>
  Lines 56-61: the script calls the function and then \<^verbatim>\<open>exit(0)\<close>; an exception that
  nothing catches ends the process with status 1.
\<close>

definition main :: "collaborators \<Rightarrow> string \<Rightarrow> versions option \<Rightarrow> string \<Rightarrow> state \<Rightarrow> nat \<times> state" where
  "main env toVersion dependencyVersions buildType st =
     (case setReactNativeVersion env toVersion dependencyVersions buildType st of
        (Returned, st') \<Rightarrow> (0, st')
      | (Threw e, st') \<Rightarrow> (1, st'))"

section \<open>Notions used to state the properties\<close>

text \<open>The number of positions of a string where a token starts.\<close>

fun occurrences :: "string \<Rightarrow> string \<Rightarrow> nat" where
  "occurrences [] tok = (if tok = [] then 1 else 0)"
| "occurrences (c # cs) tok = (if prefix tok (c # cs) then 1 else 0) + occurrences cs tok"

text \<open>
  A replacement text \<open>d\<close> is apart from the body of a token when no non-empty end
  piece of the body is a prefix of \<open>d\<close> or has \<open>d\<close> as a prefix: putting \<open>d\<close> into a
  string can then neither complete nor start that token. A text is inert when it has no
  dollar sign and is apart from the bodies of the four placeholders.
\<close>

fun apart :: "string \<Rightarrow> string \<Rightarrow> bool" where
  "apart d [] = True"
| "apart d (b # bs) = (\<not> prefix (b # bs) d \<and> \<not> prefix d (b # bs) \<and> apart d bs)"

definition inert :: "string \<Rightarrow> bool" where
  "inert d = (CHR ''$'' \<notin> set d \<and> list_all (\<lambda>t. apart d (tl t)) placeholders)"

text \<open>A prerelease without a dollar sign, or none.\<close>

definition plain_prerelease :: "VersionRecord \<Rightarrow> bool" where
  "plain_prerelease v = (case prerelease v of None \<Rightarrow> True | Some p \<Rightarrow> CHR ''$'' \<notin> set p)"

section \<open>A concrete run\<close>

text \<open>
  Two versions, a template, a manifest, collaborators and a working directory on which
  the definitions can be evaluated. The collaborators are stand-ins: the validator knows
  the three build types, the parser knows one version string, the snapshot copies the
  three files under the temporary folder, the template updater writes the version of
  \<^verbatim>\<open>react-native\<close> it is given, and the count of the shell pipeline is the argument.
\<close>

definition demo_version :: VersionRecord where
  "demo_version =
     \<lparr>version = ''0.75.0'', major = 0, minor = 75, patch = 0, prerelease = None\<rparr>"

definition demo_candidate :: VersionRecord where
  "demo_candidate =
     \<lparr>version = ''0.75.0-rc.1'', major = 0, minor = 75, patch = 0, prerelease = Some ''rc.1''\<rparr>"

definition demo_template :: string where
  "demo_template = ''major ${major}, minor ${minor}, patch ${patch}, prerelease ${prerelease}''"

definition demo_manifest :: manifest where
  "demo_manifest =
     \<lparr>m_version = Some ''1000.0.0'',
      dependencies = [''some-lib'' \<mapsto> ''1.0.0'', ''other-lib'' \<mapsto> ''3.1.4''],
      other_fields = [(''name'', ''react-native'')]\<rparr>"

definition demo_env :: "nat option \<Rightarrow> collaborators" where
  "demo_env n =
     \<lparr>validateBuildType =
        (\<lambda>b. if b \<in> set [''dry-run'', ''nightly'', ''release'']
             then None else Some InvalidBuildTypeError),
      parseVersion =
        (\<lambda>s b. if s = ''0.75.0'' then Inr demo_version else Inl VersionFormatError),
      tmpVersioningFolder = ''/tmp/rn-set-versionAb12Cd'',
      saveFiles = (\<lambda>tmp fs. foldr (\<lambda>p acc. acc(tmp @ ''/'' @ p := fs p)) filesToValidate fs),
      updateTemplatePackage =
        (\<lambda>t fs. fs(''packages/react-native/template/package.json'' := t ''react-native'')),
      JSON_parse = (\<lambda>s. if s = ''manifest 1000.0.0'' then Some demo_manifest else None),
      JSON_stringify =
        (\<lambda>m. ''manifest '' @ (case m_version m of None \<Rightarrow> [] | Some x \<Rightarrow> x)),
      exec_count = (\<lambda>command fs. n)\<rparr>"

definition demo_files :: filesystem where
  "demo_files =
     [java_template \<mapsto> demo_template,
      objc_template \<mapsto> ''${major} ${minor} ${patch} ${prerelease}'',
      cxx_template \<mapsto> ''{${major}, ${minor}, ${patch}, ${prerelease}}'',
      script_template \<mapsto> ''${major}.${minor}.${patch} ${prerelease}'',
      package_json \<mapsto> ''manifest 1000.0.0'',
      gradle_properties \<mapsto> ''GROUP=com.facebook.react'' @ [CHR 0x0A] @ ''VERSION_NAME=1000.0.0'' @ [CHR 0x0A]]"

definition demo_state :: state where
  "demo_state = \<lparr>files = demo_files, out = [], template_updates = [], commands = []\<rparr>"

text \<open>
  The same working directory without the properties file, and with a properties file
  that has no \<^verbatim>\<open>VERSION_NAME=\<close> line.
\<close>

definition demo_state_no_properties :: state where
  "demo_state_no_properties = demo_state\<lparr>files := demo_files(gradle_properties := None)\<rparr>"

definition demo_state_no_version_name :: state where
  "demo_state_no_version_name =
     demo_state\<lparr>files := demo_files(gradle_properties \<mapsto> ''GROUP=com.facebook.react'' @ [CHR 0x0A])\<rparr>"

text \<open>
  The state in which a run with the stand-in collaborators, the first version and no
  dependency versions calls \<^verbatim>\<open>setPackage\<close>, and the one in which it calls
  \<^verbatim>\<open>setGradle\<close>.
\<close>

definition demo_before_package :: "state \<Rightarrow> state" where
  "demo_before_package st =
     setSource demo_version
       ((echo (''The tmp versioning folder is '' @ tmpVersioningFolder (demo_env None)) st)
          \<lparr>files := saveFiles (demo_env None) (tmpVersioningFolder (demo_env None))
             (files (echo (''The tmp versioning folder is ''
                @ tmpVersioningFolder (demo_env None)) st))\<rparr>)"

definition demo_before_gradle :: "state \<Rightarrow> state" where
  "demo_before_gradle st =
     (let st4 = snd (setPackage (demo_env None) demo_version None (demo_before_package st))
      in st4\<lparr>files := updateTemplatePackage (demo_env None)
                   (templateDependencyVersions demo_version None) (files st4),
              template_updates := template_updates st4
                   @ [templateDependencyVersions demo_version None]\<rparr>)"

text \<open>A version whose prerelease is a replacement pattern.\<close>

definition demo_pattern :: VersionRecord where
  "demo_pattern =
     \<lparr>version = ''0.75.0-$&'', major = 0, minor = 75, patch = 0, prerelease = Some ''$&''\<rparr>"

section \<open>The orchestrator\<close>

text \<open>
  C6. When \<^verbatim>\<open>validateBuildType\<close> raises an error, or when it passes and
  \<^verbatim>\<open>parseVersion\<close> raises one, \<^verbatim>\<open>setReactNativeVersion\<close> ends with that error and
  the state is the one it started from: no snapshot has been taken, no file written,
  nothing printed and no command run.
\<close>

theorem early_errors_leave_state:
  "(validateBuildType env buildType = Some e \<longrightarrow>
      setReactNativeVersion env argVersion dependencyVersions buildType st = (Threw e, st)) \<and>
   (validateBuildType env buildType = None \<and> parseVersion env argVersion buildType = Inl e \<longrightarrow>
      setReactNativeVersion env argVersion dependencyVersions buildType st = (Threw e, st))"
  by (simp add: setReactNativeVersion_def)

theorem early_errors_leave_state_witness:
  "validateBuildType (demo_env None) ''weekly'' = Some InvalidBuildTypeError \<and>
   setReactNativeVersion (demo_env None) ''0.75.0'' None ''weekly'' demo_state
     = (Threw InvalidBuildTypeError, demo_state) \<and>
   validateBuildType (demo_env None) ''release'' = None \<and>
   parseVersion (demo_env None) ''0.75'' ''release'' = Inl VersionFormatError \<and>
   setReactNativeVersion (demo_env None) ''0.75'' None ''release'' demo_state
     = (Threw VersionFormatError, demo_state)"
  using
    early_errors_leave_state
      [of "demo_env None" "''weekly''" InvalidBuildTypeError "''0.75.0''" None demo_state]
    early_errors_leave_state
      [of "demo_env None" "''release''" VersionFormatError "''0.75''" None demo_state]
  by (simp add: demo_env_def)

subsection \<open>What a run records\<close>

lemma setSource_fields [simp]:
  "out (setSource v st) = out st"
  "template_updates (setSource v st) = template_updates st"
  "commands (setSource v st) = commands st"
  by (simp_all add: setSource_def Let_def writeFileSync_def)

lemma setPackage_cases:
  "setPackage env v d st = (Threw SyntaxError, st) \<or>
   (\<exists>contents. setPackage env v d st = (Returned, writeFileSync package_json contents st))"
  by (auto simp: setPackage_def Let_def split: option.splits)

lemma setGradle_cases:
  "(\<exists>msg. setGradle v st =
      (Threw (PropertiesUpdateError msg), echo ''Couldn't update version for Gradle'' st)) \<or>
   (\<exists>contents. setGradle v st = (Returned, writeFileSync gradle_properties contents st))"
  by (auto simp: setGradle_def sed_inplace_def split: option.splits)

lemma updateFiles_trace:
  "template_updates (snd (updateFiles env v d st)) =
     template_updates st @
       (if fst (updateFiles env v d st) = Threw SyntaxError then []
        else [templateDependencyVersions v d]) \<and>
   commands (snd (updateFiles env v d st)) = commands st"
proof -
  let ?st3 = "setSource v
     ((echo (''The tmp versioning folder is '' @ tmpVersioningFolder env) st)
        \<lparr>files := saveFiles env (tmpVersioningFolder env)
           (files (echo (''The tmp versioning folder is '' @ tmpVersioningFolder env) st))\<rparr>)"
  have kept: "template_updates ?st3 = template_updates st" "commands ?st3 = commands st"
    by (simp_all add: echo_def)
  from setPackage_cases [of env v d ?st3] show ?thesis
  proof
    assume "setPackage env v d ?st3 = (Threw SyntaxError, ?st3)"
    then show ?thesis using kept by (simp add: updateFiles_def Let_def)
  next
    assume "\<exists>contents. setPackage env v d ?st3 = (Returned, writeFileSync package_json contents ?st3)"
    then obtain contents where
      p: "setPackage env v d ?st3 = (Returned, writeFileSync package_json contents ?st3)" ..
    let ?st5 = "(writeFileSync package_json contents ?st3)
        \<lparr>files := updateTemplatePackage env (templateDependencyVersions v d)
                    (files (writeFileSync package_json contents ?st3)),
         template_updates := template_updates (writeFileSync package_json contents ?st3)
                    @ [templateDependencyVersions v d]\<rparr>"
    have u: "updateFiles env v d st = setGradle v ?st5"
      using p by (simp add: updateFiles_def Let_def)
    from setGradle_cases [of v ?st5] show ?thesis
      using u kept by (auto simp: writeFileSync_def echo_def)
  qed
qed

lemma validateChanges_fields [simp]:
  "template_updates (validateChanges env v st) = template_updates st"
  "files (validateChanges env v st) = files st"
  by (simp_all add: validateChanges_def Let_def echo_def)

lemma run_after_parse:
  "validateBuildType env bt = None \<Longrightarrow> parseVersion env a bt = Inr v \<Longrightarrow>
   setReactNativeVersion env a d bt st =
     (case updateFiles env v d st of
        (Threw e, st') \<Rightarrow> (Threw e, st')
      | (Returned, st') \<Rightarrow> (Returned, validateChanges env v st'))"
  by (simp add: setReactNativeVersion_def)

lemma run_template_updates:
  assumes "validateBuildType env bt = None" and "parseVersion env a bt = Inr v"
  shows "template_updates (snd (setReactNativeVersion env a d bt st)) =
           template_updates st @
             (if fst (setReactNativeVersion env a d bt st) = Threw SyntaxError then []
              else [templateDependencyVersions v d])"
  using updateFiles_trace [of env v d st]
  by (cases "updateFiles env v d st")
     (auto simp: run_after_parse [OF assms] split: outcome.splits)

lemma templateDependencyVersions_lookup:
  "templateDependencyVersions v d name =
     (case (case d of None \<Rightarrow> None | Some overrides \<Rightarrow> overrides name) of
        Some x \<Rightarrow> Some x
      | None \<Rightarrow> if name = ''react-native'' then Some (version v) else None)"
  by (auto simp: templateDependencyVersions_def map_add_def split: option.splits)

lemma demo_parsed:
  "validateBuildType (demo_env n) ''dry-run'' = None"
  "parseVersion (demo_env n) ''0.75.0'' ''dry-run'' = Inr demo_version"
  by (simp_all add: demo_env_def)

subsection \<open>The version map of the template updater\<close>

text \<open>
  C3, as amended. A run that gets past the build type and the parser hands the template
  updater one map, unless \<^verbatim>\<open>JSON.parse\<close> of the library manifest threw before. The
  map always has the key \<^verbatim>\<open>react-native\<close>. Every entry of the caller's map is in it
  as the caller gave it, the one for \<^verbatim>\<open>react-native\<close> included: the version of the
  record is the value of \<^verbatim>\<open>react-native\<close> only when the caller's map has no such
  key. The map has no other key.
\<close>

theorem template_versions_passed:
  "validateBuildType env bt = None \<and> parseVersion env a bt = Inr v \<longrightarrow>
     template_updates (snd (setReactNativeVersion env a d bt st)) =
       template_updates st @
         (if fst (setReactNativeVersion env a d bt st) = Threw SyntaxError then []
          else [templateDependencyVersions v d]) \<and>
     templateDependencyVersions v d name =
       (case (case d of None \<Rightarrow> None | Some overrides \<Rightarrow> overrides name) of
          Some x \<Rightarrow> Some x
        | None \<Rightarrow> if name = ''react-native'' then Some (version v) else None)"
  using run_template_updates [of env bt a v d st] templateDependencyVersions_lookup [of v d name]
  by simp

theorem template_versions_passed_witness:
  "validateBuildType (demo_env (Some 3)) ''dry-run'' = None \<and>
   parseVersion (demo_env (Some 3)) ''0.75.0'' ''dry-run'' = Inr demo_version \<and>
   template_updates (snd (setReactNativeVersion (demo_env (Some 3)) ''0.75.0''
      (Some [''some-lib'' \<mapsto> ''2.0.0'']) ''dry-run'' demo_state))
     = [templateDependencyVersions demo_version (Some [''some-lib'' \<mapsto> ''2.0.0''])] \<and>
   templateDependencyVersions demo_version (Some [''some-lib'' \<mapsto> ''2.0.0'']) ''react-native''
     = Some ''0.75.0'' \<and>
   templateDependencyVersions demo_version (Some [''some-lib'' \<mapsto> ''2.0.0'']) ''some-lib''
     = Some ''2.0.0''"
proof -
  have returned:
    "fst (setReactNativeVersion (demo_env (Some 3)) ''0.75.0''
       (Some [''some-lib'' \<mapsto> ''2.0.0'']) ''dry-run'' demo_state) = Returned"
    by code_simp
  show ?thesis
    using returned
      template_versions_passed [of "demo_env (Some 3)" "''dry-run''" "''0.75.0''" demo_version
        "Some [''some-lib'' \<mapsto> ''2.0.0'']" demo_state "''react-native''"]
      template_versions_passed [of "demo_env (Some 3)" "''dry-run''" "''0.75.0''" demo_version
        "Some [''some-lib'' \<mapsto> ''2.0.0'']" demo_state "''some-lib''"]
    by (simp add: demo_parsed demo_version_def demo_state_def)
qed

text \<open>
  The claim as it stands fails when the caller's map has the key \<^verbatim>\<open>react-native\<close>:
  the spread of line 172 comes after the entry of line 171 and replaces it.
\<close>

theorem template_versions_override_counterexample:
  "template_updates (snd (setReactNativeVersion (demo_env (Some 3)) ''0.75.0''
      (Some [''react-native'' \<mapsto> ''0.64.1'']) ''dry-run'' demo_state))
     = [templateDependencyVersions demo_version (Some [''react-native'' \<mapsto> ''0.64.1''])] \<and>
   templateDependencyVersions demo_version (Some [''react-native'' \<mapsto> ''0.64.1'']) ''react-native''
     = Some ''0.64.1'' \<and>
   templateDependencyVersions demo_version (Some [''react-native'' \<mapsto> ''0.64.1'']) ''react-native''
     \<noteq> Some (version demo_version)"
proof -
  have returned:
    "fst (setReactNativeVersion (demo_env (Some 3)) ''0.75.0''
       (Some [''react-native'' \<mapsto> ''0.64.1'']) ''dry-run'' demo_state) = Returned"
    by code_simp
  show ?thesis
    using returned
      run_template_updates [of "demo_env (Some 3)" "''dry-run''" "''0.75.0''" demo_version
        "Some [''react-native'' \<mapsto> ''0.64.1'']" demo_state]
    by (simp add: demo_parsed demo_version_def demo_state_def templateDependencyVersions_def)
qed

subsection \<open>The warning\<close>

lemma validateChanges_decision:
  "validateChanges env v st =
     (if exec_count env (validation_command (tmpVersioningFolder env) v) (files st)
          = Some (length filesToValidate)
      then st\<lparr>commands := commands st @ [validation_command (tmpVersioningFolder env) v]\<rparr>
      else st\<lparr>out := out st @
                 [''WARNING:'',
                  ''Failed to update all the files: ['' @ join '', '' filesToValidate
                    @ ''] must have versions in them'',
                  ''These files already had version '' @ version v @ '' set.''],
               commands := commands st @ [validation_command (tmpVersioningFolder env) v]\<rparr>)"
  by (simp add: validateChanges_def Let_def echo_def)

lemma filesToValidate_facts:
  "length filesToValidate = 3"
  "join '', '' filesToValidate =
     ''packages/react-native/package.json, packages/react-native/ReactAndroid/gradle.properties, packages/react-native/template/package.json''"
  by (simp_all add: filesToValidate_def)

text \<open>
  C7. Take a run that got past the build type, the parser and the updates of the
  files, which left the state \<open>st'\<close>. When the count that comes back from the shell is
  not 3, the run prints the warning, which names the three files, and returns
  normally; its final state is \<open>st'\<close> with the three lines printed and the command
  recorded, so every file is as the updates left it. Whatever the count, the run
  returns normally and the process ends with status 0.
\<close>

theorem mismatch_warns_and_returns:
  "validateBuildType env bt = None \<and> parseVersion env a bt = Inr v \<and>
   updateFiles env v d st = (Returned, st') \<longrightarrow>
     fst (setReactNativeVersion env a d bt st) = Returned \<and>
     files (snd (setReactNativeVersion env a d bt st)) = files st' \<and>
     fst (main env a d bt st) = 0 \<and>
     (exec_count env (validation_command (tmpVersioningFolder env) v) (files st') \<noteq> Some 3 \<longrightarrow>
        setReactNativeVersion env a d bt st =
          (Returned,
           st'\<lparr>out := out st' @
                  [''WARNING:'',
                   ''Failed to update all the files: [packages/react-native/package.json, packages/react-native/ReactAndroid/gradle.properties, packages/react-native/template/package.json] must have versions in them'',
                   ''These files already had version '' @ version v @ '' set.''],
                commands := commands st' @ [validation_command (tmpVersioningFolder env) v]\<rparr>))"
  by (simp add: run_after_parse main_def validateChanges_decision filesToValidate_facts)

theorem mismatch_warns_and_returns_witness:
  "validateBuildType (demo_env (Some 2)) ''dry-run'' = None \<and>
   parseVersion (demo_env (Some 2)) ''0.75.0'' ''dry-run'' = Inr demo_version \<and>
   fst (updateFiles (demo_env (Some 2)) demo_version None demo_state) = Returned \<and>
   exec_count (demo_env (Some 2))
     (validation_command (tmpVersioningFolder (demo_env (Some 2))) demo_version)
     (files (snd (updateFiles (demo_env (Some 2)) demo_version None demo_state))) = Some 2 \<and>
   fst (setReactNativeVersion (demo_env (Some 2)) ''0.75.0'' None ''dry-run'' demo_state) = Returned \<and>
   fst (main (demo_env (Some 2)) ''0.75.0'' None ''dry-run'' demo_state) = 0 \<and>
   files (snd (setReactNativeVersion (demo_env (Some 2)) ''0.75.0'' None ''dry-run'' demo_state))
     = files (snd (updateFiles (demo_env (Some 2)) demo_version None demo_state)) \<and>
   out (snd (setReactNativeVersion (demo_env (Some 2)) ''0.75.0'' None ''dry-run'' demo_state))
     = out (snd (updateFiles (demo_env (Some 2)) demo_version None demo_state)) @
       [''WARNING:'',
        ''Failed to update all the files: [packages/react-native/package.json, packages/react-native/ReactAndroid/gradle.properties, packages/react-native/template/package.json] must have versions in them'',
        ''These files already had version 0.75.0 set.'']"
proof -
  have returned: "fst (updateFiles (demo_env (Some 2)) demo_version None demo_state) = Returned"
    by code_simp
  have count: "exec_count (demo_env (Some 2)) c fs = Some 2" for c fs
    by (simp add: demo_env_def)
  obtain st' where st': "updateFiles (demo_env (Some 2)) demo_version None demo_state = (Returned, st')"
    using returned by (cases "updateFiles (demo_env (Some 2)) demo_version None demo_state") simp
  show ?thesis
    using st' count
      mismatch_warns_and_returns [of "demo_env (Some 2)" "''dry-run''" "''0.75.0''" demo_version
        None demo_state st']
    by (simp add: demo_parsed demo_version_def)
qed

subsection \<open>The library manifest\<close>

lemma demo_package_json: "cat demo_state package_json = ''manifest 1000.0.0''"
  by code_simp

text \<open>
  C8. When \<^verbatim>\<open>JSON.parse\<close> reads the manifest \<open>m\<close> from the file,
  \<^verbatim>\<open>setPackage\<close> returns normally and writes back a manifest whose \<^verbatim>\<open>version\<close>
  field is the canonical version string and whose other fields are those of \<open>m\<close>. With
  an override map, a dependency field of \<open>m\<close> whose key is in the map has the value of
  the map, and every other dependency field has the value it had; a key of the map
  that is no dependency field of \<open>m\<close> adds nothing. With no override map the dependency
  fields are those of \<open>m\<close>.
\<close>

theorem setPackage_manifest:
  "JSON_parse env (cat st package_json) = Some m \<longrightarrow>
     (\<exists>m'. setPackage env v d st
             = (Returned, writeFileSync package_json (JSON_stringify env m') st) \<and>
           m_version m' = Some (version v) \<and>
           other_fields m' = other_fields m \<and>
           (\<forall>name. dependencies m' name =
              (case d of
                 None \<Rightarrow> dependencies m name
               | Some overrides \<Rightarrow>
                   if name \<in> dom (dependencies m) \<and> name \<in> dom overrides
                   then overrides name else dependencies m name)))"
  by (cases d) (auto simp: setPackage_def applyPackageVersions_def split: option.splits)

theorem setPackage_manifest_witness:
  "JSON_parse (demo_env None) (cat demo_state package_json) = Some demo_manifest \<and>
   (\<exists>m'. setPackage (demo_env None) demo_version (Some [''some-lib'' \<mapsto> ''2.0.0'']) demo_state
           = (Returned, writeFileSync package_json (JSON_stringify (demo_env None) m') demo_state) \<and>
         m_version m' = Some ''0.75.0'' \<and>
         other_fields m' = [(''name'', ''react-native'')] \<and>
         dependencies m' ''some-lib'' = Some ''2.0.0'' \<and>
         dependencies m' ''other-lib'' = Some ''3.1.4'' \<and>
         dependencies m' ''absent-lib'' = None)"
proof -
  have parsed: "JSON_parse (demo_env None) (cat demo_state package_json) = Some demo_manifest"
    by (simp add: demo_package_json demo_env_def)
  from parsed
    setPackage_manifest [of "demo_env None" demo_state demo_manifest demo_version
      "Some [''some-lib'' \<mapsto> ''2.0.0'']"]
  obtain m' where m':
    "setPackage (demo_env None) demo_version (Some [''some-lib'' \<mapsto> ''2.0.0'']) demo_state
       = (Returned, writeFileSync package_json (JSON_stringify (demo_env None) m') demo_state)"
    "m_version m' = Some (version demo_version)"
    "other_fields m' = other_fields demo_manifest"
    "\<forall>name. dependencies m' name =
       (if name \<in> dom (dependencies demo_manifest) \<and> name \<in> dom [''some-lib'' \<mapsto> ''2.0.0'']
        then [''some-lib'' \<mapsto> ''2.0.0''] name else dependencies demo_manifest name)"
    by auto
  from m'(4) have
    "dependencies m' ''some-lib'' = Some ''2.0.0''"
    "dependencies m' ''other-lib'' = Some ''3.1.4''"
    "dependencies m' ''absent-lib'' = None"
    by (simp_all add: demo_manifest_def)
  with parsed m'(1,2,3) show ?thesis
    by (auto simp: demo_version_def demo_manifest_def)
qed

text \<open>
  C10. With no dependency versions (\<^verbatim>\<open>null\<close> or \<^verbatim>\<open>undefined\<close>, which
  \<^verbatim>\<open>!= null\<close> does not tell apart), \<^verbatim>\<open>setPackage\<close> writes back the manifest it read
  with the \<^verbatim>\<open>version\<close> field set and nothing else changed, and a run that got past
  the build type, the parser and \<^verbatim>\<open>JSON.parse\<close> hands the template updater the map
  with the single entry for \<^verbatim>\<open>react-native\<close>.
\<close>

theorem null_dependency_versions:
  "(JSON_parse env (cat st package_json) = Some m \<longrightarrow>
      setPackage env v None st
        = (Returned,
           writeFileSync package_json
             (JSON_stringify env (m\<lparr>m_version := Some (version v)\<rparr>)) st)) \<and>
   (validateBuildType env bt = None \<and> parseVersion env a bt = Inr v \<and>
    fst (setReactNativeVersion env a None bt st) \<noteq> Threw SyntaxError \<longrightarrow>
      template_updates (snd (setReactNativeVersion env a None bt st))
        = template_updates st @ [[''react-native'' \<mapsto> version v]])"
  using run_template_updates [of env bt a v None st]
  by (simp add: setPackage_def templateDependencyVersions_def)

theorem null_dependency_versions_witness:
  "JSON_parse (demo_env (Some 3)) (cat demo_state package_json) = Some demo_manifest \<and>
   setPackage (demo_env (Some 3)) demo_version None demo_state
     = (Returned,
        writeFileSync package_json
          (JSON_stringify (demo_env (Some 3)) (demo_manifest\<lparr>m_version := Some ''0.75.0''\<rparr>))
          demo_state) \<and>
   validateBuildType (demo_env (Some 3)) ''dry-run'' = None \<and>
   parseVersion (demo_env (Some 3)) ''0.75.0'' ''dry-run'' = Inr demo_version \<and>
   fst (setReactNativeVersion (demo_env (Some 3)) ''0.75.0'' None ''dry-run'' demo_state)
     = Returned \<and>
   template_updates (snd (setReactNativeVersion (demo_env (Some 3)) ''0.75.0'' None ''dry-run''
      demo_state)) = [[''react-native'' \<mapsto> ''0.75.0'']]"
proof -
  have parsed: "JSON_parse (demo_env (Some 3)) (cat demo_state package_json) = Some demo_manifest"
    by (simp add: demo_package_json demo_env_def)
  have returned:
    "fst (setReactNativeVersion (demo_env (Some 3)) ''0.75.0'' None ''dry-run'' demo_state)
       = Returned"
    by code_simp
  show ?thesis
    using parsed returned
      null_dependency_versions [of "demo_env (Some 3)" demo_state demo_manifest demo_version
        "''dry-run''" "''0.75.0''"]
    by (simp add: demo_parsed demo_version_def demo_state_def)
qed

subsection \<open>The properties file\<close>

lemma getSubstitution_plain:
  "CHR ''$'' \<notin> set r \<Longrightarrow> getSubstitution m p f r = r"
  by (induction m p f r rule: getSubstitution.induct) auto

lemma split_lines_not_Nil: "split_lines s \<noteq> []"
  by (induction s) (auto split: list.splits)

lemma join_Cons_Cons: "join sep ((c # l) # ls) = c # join sep (l # ls)"
  by (cases ls) simp_all

lemma join_split_lines: "join [CHR 0x0A] (split_lines s) = s"
proof (induction s)
  case Nil
  show ?case by simp
next
  case (Cons c cs)
  obtain l ls where l: "split_lines cs = l # ls"
    using split_lines_not_Nil [of cs] by (cases "split_lines cs") auto
  with Cons show ?case by (simp add: join_Cons_Cons)
qed

lemma map_unmatched_lines:
  "list_all (\<lambda>l. \<not> prefix ''VERSION_NAME='' l) ls \<Longrightarrow>
   map (replace_version_name r) ls = ls"
  by (induction ls) (simp_all add: replace_version_name_def)

lemma setGradle_missing:
  "files st gradle_properties = None \<Longrightarrow>
   \<exists>msg. setGradle v st =
     (Threw (PropertiesUpdateError msg), echo ''Couldn't update version for Gradle'' st)"
  by (simp add: setGradle_def sed_inplace_def)

lemma setGradle_present:
  "files st gradle_properties = Some contents \<Longrightarrow>
   setGradle v st =
     (Returned,
      writeFileSync gradle_properties
        (join [CHR 0x0A]
           (map (replace_version_name (''VERSION_NAME='' @ version v)) (split_lines contents)))
        st)"
  by (simp add: setGradle_def sed_inplace_def)

lemma replace_version_name_plain:
  "CHR ''$'' \<notin> set x \<Longrightarrow>
   replace_version_name (''VERSION_NAME='' @ x) line =
     (if prefix ''VERSION_NAME='' line
      then ''VERSION_NAME='' @ x
             @ dropWhile (\<lambda>c. \<not> line_terminator c) (drop (length ''VERSION_NAME='') line)
      else line)"
  by (simp add: replace_version_name_def Let_def getSubstitution_plain)

lemma setPackage_commands:
  "setPackage env v d st = (r, st') \<Longrightarrow> commands st' = commands st"
  by (auto simp: setPackage_def Let_def writeFileSync_def split: option.splits)

lemma run_reaches_setGradle:
  assumes "validateBuildType env bt = None" and "parseVersion env a bt = Inr v"
    and "setPackage env v d
           (setSource v
              ((echo (''The tmp versioning folder is '' @ tmpVersioningFolder env) start)
                 \<lparr>files := saveFiles env (tmpVersioningFolder env)
                    (files (echo (''The tmp versioning folder is '' @ tmpVersioningFolder env)
                       start))\<rparr>))
         = (Returned, packaged)"
    and "st = packaged\<lparr>files := updateTemplatePackage env (templateDependencyVersions v d) (files packaged),
                   template_updates := template_updates packaged @ [templateDependencyVersions v d]\<rparr>"
  shows "setReactNativeVersion env a d bt start =
           (case setGradle v st of
              (Threw e, left) \<Rightarrow> (Threw e, left)
            | (Returned, left) \<Rightarrow> (Returned, validateChanges env v left))"
    and "commands st = commands start"
proof -
  show "setReactNativeVersion env a d bt start =
           (case setGradle v st of
              (Threw e, left) \<Rightarrow> (Threw e, left)
            | (Returned, left) \<Rightarrow> (Returned, validateChanges env v left))"
    using assms(3,4) by (simp add: run_after_parse [OF assms(1,2)] updateFiles_def Let_def)
  show "commands st = commands start"
    using setPackage_commands [OF assms(3)] assms(4) by (simp add: echo_def)
qed

lemma run_without_properties:
  assumes "validateBuildType env bt = None" and "parseVersion env a bt = Inr v"
    and "setPackage env v d
           (setSource v
              ((echo (''The tmp versioning folder is '' @ tmpVersioningFolder env) start)
                 \<lparr>files := saveFiles env (tmpVersioningFolder env)
                    (files (echo (''The tmp versioning folder is '' @ tmpVersioningFolder env)
                       start))\<rparr>))
         = (Returned, packaged)"
    and "st = packaged\<lparr>files := updateTemplatePackage env (templateDependencyVersions v d) (files packaged),
                   template_updates := template_updates packaged @ [templateDependencyVersions v d]\<rparr>"
    and "files st gradle_properties = None"
  shows "(\<exists>msg. setReactNativeVersion env a d bt start =
            (Threw (PropertiesUpdateError msg),
             echo ''Couldn't update version for Gradle'' st)) \<and>
         commands (snd (setReactNativeVersion env a d bt start)) = commands start"
proof -
  from setGradle_missing [OF assms(5), of v] obtain msg where
    "setGradle v st =
       (Threw (PropertiesUpdateError msg), echo ''Couldn't update version for Gradle'' st)" ..
  then have "setReactNativeVersion env a d bt start =
       (Threw (PropertiesUpdateError msg), echo ''Couldn't update version for Gradle'' st)"
    by (simp add: run_reaches_setGradle(1) [OF assms(1-4)])
  then show ?thesis
    using run_reaches_setGradle(2) [OF assms(1-4)] by (auto simp: echo_def)
qed

lemma run_with_properties:
  assumes "validateBuildType env bt = None" and "parseVersion env a bt = Inr v"
    and "setPackage env v d
           (setSource v
              ((echo (''The tmp versioning folder is '' @ tmpVersioningFolder env) start)
                 \<lparr>files := saveFiles env (tmpVersioningFolder env)
                    (files (echo (''The tmp versioning folder is '' @ tmpVersioningFolder env)
                       start))\<rparr>))
         = (Returned, packaged)"
    and "st = packaged\<lparr>files := updateTemplatePackage env (templateDependencyVersions v d) (files packaged),
                   template_updates := template_updates packaged @ [templateDependencyVersions v d]\<rparr>"
    and "files st gradle_properties = Some contents"
  shows "setReactNativeVersion env a d bt start =
           (Returned,
            validateChanges env v
              (writeFileSync gradle_properties
                 (join [CHR 0x0A]
                    (map (replace_version_name (''VERSION_NAME='' @ version v))
                       (split_lines contents)))
                 st)) \<and>
         commands (snd (setReactNativeVersion env a d bt start))
           = commands start @ [validation_command (tmpVersioningFolder env) v]"
  using run_reaches_setGradle(2) [OF assms(1-4)]
  by (simp add: run_reaches_setGradle(1) [OF assms(1-4)] setGradle_present [OF assms(5)]
      validateChanges_decision writeFileSync_def)

text \<open>
  C2, as amended. \<^verbatim>\<open>setGradle\<close> throws exactly when the properties file does not
  exist: \<^verbatim>\<open>sed\<close> then reports an error, the script prints its message and throws what
  \<^verbatim>\<open>sed\<close> wrote to the error stream. When the file exists no error is raised, whether
  or not a line matches. Every line goes through the replacement: for a version string
  without a dollar sign, a line that starts with \<^verbatim>\<open>VERSION_NAME=\<close> becomes
  \<^verbatim>\<open>VERSION_NAME=\<close> and the version string, followed by what the line had from its
  first carriage return on, and any other line stays. When no line starts with
  \<^verbatim>\<open>VERSION_NAME=\<close> the file is written back as it was. Now take a run that got past
  the build type, the parser and \<^verbatim>\<open>setPackage\<close>, and let \<open>st\<close> be the state in which
  it calls \<^verbatim>\<open>setGradle\<close>. Without the properties file in \<open>st\<close> the run ends with the
  error of \<^verbatim>\<open>setGradle\<close>, in the state \<^verbatim>\<open>setGradle\<close> left, and its check of the changes
  is never reached: it has run no command. With the file the run returns normally,
  after the check of the changes on the state \<^verbatim>\<open>setGradle\<close> left, and has run the one
  command of the check.
\<close>

theorem setGradle_outcome:
  "(files st gradle_properties = None \<longrightarrow>
      (\<exists>msg. setGradle v st =
         (Threw (PropertiesUpdateError msg), echo ''Couldn't update version for Gradle'' st))) \<and>
   (files st gradle_properties = Some contents \<longrightarrow>
      setGradle v st =
        (Returned,
         writeFileSync gradle_properties
           (join [CHR 0x0A]
              (map (replace_version_name (''VERSION_NAME='' @ version v)) (split_lines contents)))
           st) \<and>
      (list_all (\<lambda>l. \<not> prefix ''VERSION_NAME='' l) (split_lines contents) \<longrightarrow>
         setGradle v st = (Returned, writeFileSync gradle_properties contents st))) \<and>
   (CHR ''$'' \<notin> set (version v) \<longrightarrow>
      replace_version_name (''VERSION_NAME='' @ version v) line =
        (if prefix ''VERSION_NAME='' line
         then ''VERSION_NAME='' @ version v
                @ dropWhile (\<lambda>c. \<not> line_terminator c) (drop (length ''VERSION_NAME='') line)
         else line)) \<and>
   (validateBuildType env bt = None \<and> parseVersion env a bt = Inr v \<and>
    setPackage env v d
      (setSource v
         ((echo (''The tmp versioning folder is '' @ tmpVersioningFolder env) start)
            \<lparr>files := saveFiles env (tmpVersioningFolder env)
               (files (echo (''The tmp versioning folder is '' @ tmpVersioningFolder env)
                  start))\<rparr>))
      = (Returned, packaged) \<and>
    st = packaged\<lparr>files := updateTemplatePackage env (templateDependencyVersions v d) (files packaged),
              template_updates := template_updates packaged @ [templateDependencyVersions v d]\<rparr> \<longrightarrow>
      (files st gradle_properties = None \<longrightarrow>
         (\<exists>msg. setReactNativeVersion env a d bt start =
            (Threw (PropertiesUpdateError msg),
             echo ''Couldn't update version for Gradle'' st)) \<and>
         commands (snd (setReactNativeVersion env a d bt start)) = commands start) \<and>
      (files st gradle_properties = Some contents \<longrightarrow>
         setReactNativeVersion env a d bt start =
           (Returned,
            validateChanges env v
              (writeFileSync gradle_properties
                 (join [CHR 0x0A]
                    (map (replace_version_name (''VERSION_NAME='' @ version v))
                       (split_lines contents)))
                 st)) \<and>
         commands (snd (setReactNativeVersion env a d bt start))
           = commands start @ [validation_command (tmpVersioningFolder env) v]))"
proof (intro conjI impI)
  show "\<exists>msg. setGradle v st =
         (Threw (PropertiesUpdateError msg), echo ''Couldn't update version for Gradle'' st)"
    if "files st gradle_properties = None"
    using that by (rule setGradle_missing)
  show "setGradle v st =
        (Returned,
         writeFileSync gradle_properties
           (join [CHR 0x0A]
              (map (replace_version_name (''VERSION_NAME='' @ version v)) (split_lines contents)))
           st)"
    if "files st gradle_properties = Some contents"
    using that by (rule setGradle_present)
  show "setGradle v st = (Returned, writeFileSync gradle_properties contents st)"
    if "files st gradle_properties = Some contents"
      and "list_all (\<lambda>l. \<not> prefix ''VERSION_NAME='' l) (split_lines contents)"
    using setGradle_present [OF that(1), of v] map_unmatched_lines [OF that(2)]
      join_split_lines [of contents]
    by simp
  show "replace_version_name (''VERSION_NAME='' @ version v) line =
        (if prefix ''VERSION_NAME='' line
         then ''VERSION_NAME='' @ version v
                @ dropWhile (\<lambda>c. \<not> line_terminator c) (drop (length ''VERSION_NAME='') line)
         else line)"
    if "CHR ''$'' \<notin> set (version v)"
    using that by (rule replace_version_name_plain)
next
  assume reached: "validateBuildType env bt = None \<and> parseVersion env a bt = Inr v \<and>
    setPackage env v d
      (setSource v
         ((echo (''The tmp versioning folder is '' @ tmpVersioningFolder env) start)
            \<lparr>files := saveFiles env (tmpVersioningFolder env)
               (files (echo (''The tmp versioning folder is '' @ tmpVersioningFolder env)
                  start))\<rparr>))
      = (Returned, packaged) \<and>
    st = packaged\<lparr>files := updateTemplatePackage env (templateDependencyVersions v d) (files packaged),
              template_updates := template_updates packaged @ [templateDependencyVersions v d]\<rparr>"
  {
    assume "files st gradle_properties = None"
    with reached have
      "(\<exists>msg. setReactNativeVersion env a d bt start =
            (Threw (PropertiesUpdateError msg),
             echo ''Couldn't update version for Gradle'' st)) \<and>
       commands (snd (setReactNativeVersion env a d bt start)) = commands start"
      by (intro run_without_properties) simp_all
  }
  then show "\<exists>msg. setReactNativeVersion env a d bt start =
            (Threw (PropertiesUpdateError msg),
             echo ''Couldn't update version for Gradle'' st)"
    and "commands (snd (setReactNativeVersion env a d bt start)) = commands start"
    if "files st gradle_properties = None"
    using that by blast+
  {
    assume "files st gradle_properties = Some contents"
    with reached have
      "setReactNativeVersion env a d bt start =
           (Returned,
            validateChanges env v
              (writeFileSync gradle_properties
                 (join [CHR 0x0A]
                    (map (replace_version_name (''VERSION_NAME='' @ version v))
                       (split_lines contents)))
                 st)) \<and>
       commands (snd (setReactNativeVersion env a d bt start))
           = commands start @ [validation_command (tmpVersioningFolder env) v]"
      by (intro run_with_properties) simp_all
  }
  then show "setReactNativeVersion env a d bt start =
           (Returned,
            validateChanges env v
              (writeFileSync gradle_properties
                 (join [CHR 0x0A]
                    (map (replace_version_name (''VERSION_NAME='' @ version v))
                       (split_lines contents)))
                 st))"
    and "commands (snd (setReactNativeVersion env a d bt start))
           = commands start @ [validation_command (tmpVersioningFolder env) v]"
    if "files st gradle_properties = Some contents"
    using that by blast+
qed

lemma demo_reached:
  assumes "fst (setPackage (demo_env None) demo_version None (demo_before_package start)) = Returned"
  shows "validateBuildType (demo_env None) ''dry-run'' = None \<and>
    parseVersion (demo_env None) ''0.75.0'' ''dry-run'' = Inr demo_version \<and>
    setPackage (demo_env None) demo_version None
      (setSource demo_version
         ((echo (''The tmp versioning folder is '' @ tmpVersioningFolder (demo_env None)) start)
            \<lparr>files := saveFiles (demo_env None) (tmpVersioningFolder (demo_env None))
               (files (echo (''The tmp versioning folder is ''
                  @ tmpVersioningFolder (demo_env None)) start))\<rparr>))
      = (Returned,
         snd (setPackage (demo_env None) demo_version None (demo_before_package start))) \<and>
    demo_before_gradle start =
      (snd (setPackage (demo_env None) demo_version None (demo_before_package start)))
        \<lparr>files := updateTemplatePackage (demo_env None)
           (templateDependencyVersions demo_version None)
           (files (snd (setPackage (demo_env None) demo_version None (demo_before_package start)))),
         template_updates :=
           template_updates
             (snd (setPackage (demo_env None) demo_version None (demo_before_package start)))
           @ [templateDependencyVersions demo_version None]\<rparr>"
proof -
  have "setPackage (demo_env None) demo_version None (demo_before_package start)
      = (Returned,
         snd (setPackage (demo_env None) demo_version None (demo_before_package start)))"
    using assms
    by (cases "setPackage (demo_env None) demo_version None (demo_before_package start)") simp
  with demo_parsed [of None] show ?thesis
    unfolding demo_before_gradle_def Let_def demo_before_package_def by blast
qed

theorem setGradle_outcome_witness:
  "validateBuildType (demo_env None) ''dry-run'' = None \<and>
   parseVersion (demo_env None) ''0.75.0'' ''dry-run'' = Inr demo_version \<and>
   fst (setPackage (demo_env None) demo_version None
          (demo_before_package demo_state_no_properties)) = Returned \<and>
   files (demo_before_gradle demo_state_no_properties) gradle_properties = None \<and>
   fst (setGradle demo_version (demo_before_gradle demo_state_no_properties))
     = Threw (PropertiesUpdateError
         ''sed: no such file or directory: packages/react-native/ReactAndroid/gradle.properties'') \<and>
   fst (setReactNativeVersion (demo_env None) ''0.75.0'' None ''dry-run'' demo_state_no_properties)
     = Threw (PropertiesUpdateError
         ''sed: no such file or directory: packages/react-native/ReactAndroid/gradle.properties'') \<and>
   commands (snd (setReactNativeVersion (demo_env None) ''0.75.0'' None ''dry-run''
      demo_state_no_properties)) = commands demo_state_no_properties \<and>
   commands demo_state_no_properties = [] \<and>
   fst (setPackage (demo_env None) demo_version None (demo_before_package demo_state))
     = Returned \<and>
   files (demo_before_gradle demo_state) gradle_properties
     = Some (''GROUP=com.facebook.react'' @ [CHR 0x0A] @ ''VERSION_NAME=1000.0.0'' @ [CHR 0x0A]) \<and>
   setGradle demo_version (demo_before_gradle demo_state)
     = (Returned,
        writeFileSync gradle_properties
          (''GROUP=com.facebook.react'' @ [CHR 0x0A] @ ''VERSION_NAME=0.75.0'' @ [CHR 0x0A])
          (demo_before_gradle demo_state)) \<and>
   setReactNativeVersion (demo_env None) ''0.75.0'' None ''dry-run'' demo_state
     = (Returned,
        validateChanges (demo_env None) demo_version
          (writeFileSync gradle_properties
             (''GROUP=com.facebook.react'' @ [CHR 0x0A] @ ''VERSION_NAME=0.75.0'' @ [CHR 0x0A])
             (demo_before_gradle demo_state))) \<and>
   commands (snd (setReactNativeVersion (demo_env None) ''0.75.0'' None ''dry-run'' demo_state))
     = commands demo_state @ [validation_command (tmpVersioningFolder (demo_env None)) demo_version] \<and>
   files demo_state_no_version_name gradle_properties
     = Some (''GROUP=com.facebook.react'' @ [CHR 0x0A]) \<and>
   list_all (\<lambda>l. \<not> prefix ''VERSION_NAME='' l)
     (split_lines (''GROUP=com.facebook.react'' @ [CHR 0x0A])) \<and>
   setGradle demo_version demo_state_no_version_name
     = (Returned,
        writeFileSync gradle_properties (''GROUP=com.facebook.react'' @ [CHR 0x0A])
          demo_state_no_version_name) \<and>
   CHR ''$'' \<notin> set (version demo_version) \<and>
   replace_version_name (''VERSION_NAME='' @ version demo_version) ''VERSION_NAME=1000.0.0''
     = ''VERSION_NAME=0.75.0''"
proof -
  let ?err = "PropertiesUpdateError
    ''sed: no such file or directory: packages/react-native/ReactAndroid/gradle.properties''"
  let ?old = "''GROUP=com.facebook.react'' @ [CHR 0x0A] @ ''VERSION_NAME=1000.0.0'' @ [CHR 0x0A]"
  let ?new = "''GROUP=com.facebook.react'' @ [CHR 0x0A] @ ''VERSION_NAME=0.75.0'' @ [CHR 0x0A]"
  let ?bare = "''GROUP=com.facebook.react'' @ [CHR 0x0A]"
  have p1: "fst (setPackage (demo_env None) demo_version None
      (demo_before_package demo_state_no_properties)) = Returned"
    and f1: "files (demo_before_gradle demo_state_no_properties) gradle_properties = None"
    and g1: "fst (setGradle demo_version (demo_before_gradle demo_state_no_properties))
      = Threw ?err"
    and r1: "fst (setReactNativeVersion (demo_env None) ''0.75.0'' None ''dry-run''
      demo_state_no_properties) = Threw ?err"
    and c1: "commands demo_state_no_properties = []"
    by code_simp+
  have p2: "fst (setPackage (demo_env None) demo_version None (demo_before_package demo_state))
      = Returned"
    and f2: "files (demo_before_gradle demo_state) gradle_properties = Some ?old"
    and l2: "join [CHR 0x0A] (map (replace_version_name (''VERSION_NAME='' @ version demo_version))
       (split_lines ?old)) = ?new"
    by code_simp+
  have f3: "files demo_state_no_version_name gradle_properties = Some ?bare"
    and l3: "list_all (\<lambda>l. \<not> prefix ''VERSION_NAME='' l) (split_lines ?bare)"
    and v: "CHR ''$'' \<notin> set (version demo_version)"
    and r: "replace_version_name (''VERSION_NAME='' @ version demo_version)
      ''VERSION_NAME=1000.0.0'' = ''VERSION_NAME=0.75.0''"
    by code_simp+
  note missing = setGradle_outcome [where st = "demo_before_gradle demo_state_no_properties"
      and v = demo_version and env = "demo_env None" and bt = "''dry-run''" and a = "''0.75.0''"
      and d = None and start = demo_state_no_properties
      and packaged = "snd (setPackage (demo_env None) demo_version None
        (demo_before_package demo_state_no_properties))"
      and contents = ?old and line = "''VERSION_NAME=1000.0.0''"]
  note present = setGradle_outcome [where st = "demo_before_gradle demo_state"
      and v = demo_version and env = "demo_env None" and bt = "''dry-run''" and a = "''0.75.0''"
      and d = None and start = demo_state
      and packaged = "snd (setPackage (demo_env None) demo_version None
        (demo_before_package demo_state))"
      and contents = ?old and line = "''VERSION_NAME=1000.0.0''"]
  note unmatched = setGradle_outcome [where st = demo_state_no_version_name
      and v = demo_version and contents = ?bare and line = "''VERSION_NAME=1000.0.0''"
      and env = "demo_env None" and bt = "''dry-run''" and a = "''0.75.0''"
      and d = None and start = demo_state
      and packaged = "snd (setPackage (demo_env None) demo_version None
        (demo_before_package demo_state))"]
  have e1: "commands (snd (setReactNativeVersion (demo_env None) ''0.75.0'' None ''dry-run''
      demo_state_no_properties)) = commands demo_state_no_properties"
    using missing demo_reached [OF p1] f1 by blast
  have "setGradle demo_version (demo_before_gradle demo_state)
     = (Returned,
        writeFileSync gradle_properties
          (join [CHR 0x0A] (map (replace_version_name (''VERSION_NAME='' @ version demo_version))
             (split_lines ?old)))
          (demo_before_gradle demo_state))"
    using present f2 by blast
  then have g2: "setGradle demo_version (demo_before_gradle demo_state)
     = (Returned, writeFileSync gradle_properties ?new (demo_before_gradle demo_state))"
    by (simp only: l2)
  have both: "setReactNativeVersion (demo_env None) ''0.75.0'' None ''dry-run'' demo_state
     = (Returned,
        validateChanges (demo_env None) demo_version
          (writeFileSync gradle_properties
             (join [CHR 0x0A]
                (map (replace_version_name (''VERSION_NAME='' @ version demo_version))
                   (split_lines ?old)))
             (demo_before_gradle demo_state))) \<and>
     commands (snd (setReactNativeVersion (demo_env None) ''0.75.0'' None ''dry-run'' demo_state))
       = commands demo_state
           @ [validation_command (tmpVersioningFolder (demo_env None)) demo_version]"
    using present demo_reached [OF p2] f2 by blast
  from both [THEN conjunct1]
  have e2: "setReactNativeVersion (demo_env None) ''0.75.0'' None ''dry-run'' demo_state
     = (Returned,
        validateChanges (demo_env None) demo_version
          (writeFileSync gradle_properties ?new (demo_before_gradle demo_state)))"
    by (simp only: l2)
  note e3 = both [THEN conjunct2]
  have g3: "setGradle demo_version demo_state_no_version_name
     = (Returned, writeFileSync gradle_properties ?bare demo_state_no_version_name)"
    using unmatched f3 l3 by blast
  from demo_parsed [of None] p1 f1 g1 r1 e1 c1 p2 f2 g2 e2 e3 f3 l3 g3 v r show ?thesis
    by blast
qed

text \<open>
  The claim as it stands fails on a properties file that exists and has no
  \<^verbatim>\<open>VERSION_NAME=\<close> line: \<^verbatim>\<open>sed\<close> succeeds, nothing is thrown, the file stays as it
  was and the run goes on to the check of the changes.
\<close>

theorem missing_line_counterexample:
  "list_all (\<lambda>l. \<not> prefix ''VERSION_NAME='' l)
     (split_lines (cat demo_state_no_version_name gradle_properties)) \<and>
   fst (setGradle demo_version demo_state_no_version_name) = Returned \<and>
   fst (setReactNativeVersion (demo_env (Some 2)) ''0.75.0'' None ''dry-run''
      demo_state_no_version_name) = Returned \<and>
   commands (snd (setReactNativeVersion (demo_env (Some 2)) ''0.75.0'' None ''dry-run''
      demo_state_no_version_name))
     = [validation_command ''/tmp/rn-set-versionAb12Cd'' demo_version] \<and>
   files (snd (setReactNativeVersion (demo_env (Some 2)) ''0.75.0'' None ''dry-run''
      demo_state_no_version_name)) gradle_properties
     = Some (''GROUP=com.facebook.react'' @ [CHR 0x0A])"
  by code_simp

section \<open>The renderers\<close>

subsection \<open>Replacement of the first occurrence\<close>

lemma js_replace_Nil: "pat \<noteq> [] \<Longrightarrow> js_replace [] pat r = []"
  by (simp add: js_replace_def)

lemma js_replace_Cons_prefix:
  "prefix pat (c # cs) \<Longrightarrow> CHR ''$'' \<notin> set r \<Longrightarrow>
   js_replace (c # cs) pat r = r @ drop (length pat) (c # cs)"
  by (simp add: js_replace_def getSubstitution_plain)

lemma js_replace_Cons_other:
  "\<not> prefix pat (c # cs) \<Longrightarrow> CHR ''$'' \<notin> set r \<Longrightarrow>
   js_replace (c # cs) pat r = c # js_replace cs pat r"
  by (simp add: js_replace_def getSubstitution_plain split: option.splits)

lemma occurrences_sublist: "occurrences s tok = 0 \<longleftrightarrow> \<not> sublist tok s"
  by (induction s) (auto simp: sublist_Cons_right)

lemma indexOf_None: "indexOf s tok = None \<longleftrightarrow> occurrences s tok = 0"
  by (induction s) auto

lemma indexOf_split:
  "indexOf s pat = Some i \<Longrightarrow> s = take i s @ pat @ drop (i + length pat) s"
proof (induction s arbitrary: i)
  case Nil
  then show ?case by (simp split: if_splits)
next
  case (Cons c cs)
  show ?case
  proof (cases "prefix pat (c # cs)")
    case True
    with Cons.prems have "i = 0" by simp
    with True show ?thesis by (auto simp: prefix_def)
  next
    case False
    with Cons.prems obtain j where j: "indexOf cs pat = Some j" "i = Suc j" by auto
    from Cons.IH[OF j(1)] j(2) show ?thesis by simp
  qed
qed


lemma apart_hd: "d \<noteq> [] \<Longrightarrow> hd d \<notin> set body \<Longrightarrow> apart d body"
  by (induction body) (auto simp: prefix_def neq_Nil_conv)

lemma prefix_append_cases: "prefix xs (ys @ zs) \<Longrightarrow> prefix xs ys \<or> prefix ys xs"
  by (auto simp: prefix_append)

lemma apart_not_prefix: "apart d (b # bs) \<Longrightarrow> \<not> prefix (b # bs) (d @ rest)"
  using prefix_append_cases [of "b # bs" d rest] by auto

lemma prefix_js_replace:
  "CHR ''$'' \<notin> set body \<Longrightarrow> apart d body \<Longrightarrow> CHR ''$'' \<notin> set d \<Longrightarrow>
   prefix body (js_replace s (CHR ''$'' # mb) d) \<longleftrightarrow> prefix body s"
proof (induction body arbitrary: s)
  case Nil
  then show ?case by simp
next
  case (Cons b bs)
  show ?case
  proof (cases s)
    case Nil
    then show ?thesis by (simp add: js_replace_Nil)
  next
    case (Cons x xs)
    show ?thesis
    proof (cases "prefix (CHR ''$'' # mb) (x # xs)")
      case True
      then have x: "x = CHR ''$''" by simp
      from True Cons.prems(3)
      have "js_replace (x # xs) (CHR ''$'' # mb) d = d @ drop (length (CHR ''$'' # mb)) (x # xs)"
        by (rule js_replace_Cons_prefix)
      moreover have "\<not> prefix (b # bs) (d @ drop (length (CHR ''$'' # mb)) (x # xs))"
        using Cons.prems(2) by (rule apart_not_prefix)
      moreover have "\<not> prefix (b # bs) (x # xs)"
        using x Cons.prems(1) by auto
      ultimately show ?thesis using Cons by simp
    next
      case False
      from False Cons.prems(3)
      have "js_replace (x # xs) (CHR ''$'' # mb) d = x # js_replace xs (CHR ''$'' # mb) d"
        by (rule js_replace_Cons_other)
      moreover have "prefix bs (js_replace xs (CHR ''$'' # mb) d) \<longleftrightarrow> prefix bs xs"
        using Cons.IH [of xs] Cons.prems by simp
      ultimately show ?thesis using Cons by simp
    qed
  qed
qed

lemma occurrences_append_plain:
  "CHR ''$'' \<notin> set a \<Longrightarrow> occurrences (a @ s) (CHR ''$'' # body) = occurrences s (CHR ''$'' # body)"
  by (induction a) auto

lemma occurrences_js_replace_other:
  assumes "CHR ''$'' \<notin> set body" "CHR ''$'' \<notin> set mb" "CHR ''$'' \<notin> set d"
    and "apart d body" and "\<not> prefix body mb" "\<not> prefix mb body"
  shows "occurrences (js_replace s (CHR ''$'' # mb) d) (CHR ''$'' # body)
         = occurrences s (CHR ''$'' # body)"
proof (induction s)
  case Nil
  then show ?case by (simp add: js_replace_Nil)
next
  case (Cons c cs)
  show ?case
  proof (cases "prefix (CHR ''$'' # mb) (c # cs)")
    case True
    then obtain rest where rest: "c # cs = (CHR ''$'' # mb) @ rest"
      by (auto simp: prefix_def)
    have "js_replace (c # cs) (CHR ''$'' # mb) d = d @ rest"
      using js_replace_Cons_prefix [OF True assms(3)] rest by simp
    moreover have "occurrences (d @ rest) (CHR ''$'' # body) = occurrences rest (CHR ''$'' # body)"
      using assms(3) by (rule occurrences_append_plain)
    moreover have "\<not> prefix body (mb @ rest)"
      using assms(5,6) prefix_append_cases [of body mb rest] by auto
    then have "occurrences ((CHR ''$'' # mb) @ rest) (CHR ''$'' # body)
               = occurrences (mb @ rest) (CHR ''$'' # body)"
      by simp
    moreover have "occurrences (mb @ rest) (CHR ''$'' # body) = occurrences rest (CHR ''$'' # body)"
      using assms(2) by (rule occurrences_append_plain)
    ultimately show ?thesis using rest by simp
  next
    case False
    have "js_replace (c # cs) (CHR ''$'' # mb) d = c # js_replace cs (CHR ''$'' # mb) d"
      using False assms(3) by (rule js_replace_Cons_other)
    moreover have "prefix body (js_replace cs (CHR ''$'' # mb) d) \<longleftrightarrow> prefix body cs"
      using assms(1,4,3) by (rule prefix_js_replace)
    ultimately show ?thesis using Cons.IH by simp
  qed
qed

lemma occurrences_js_replace_self:
  assumes "CHR ''$'' \<notin> set mb" "CHR ''$'' \<notin> set d" and "apart d mb"
  shows "occurrences (js_replace s (CHR ''$'' # mb) d) (CHR ''$'' # mb)
         = occurrences s (CHR ''$'' # mb) - 1"
proof (induction s)
  case Nil
  then show ?case by (simp add: js_replace_Nil)
next
  case (Cons c cs)
  show ?case
  proof (cases "prefix (CHR ''$'' # mb) (c # cs)")
    case True
    then obtain rest where rest: "c # cs = (CHR ''$'' # mb) @ rest"
      by (auto simp: prefix_def)
    have "js_replace (c # cs) (CHR ''$'' # mb) d = d @ rest"
      using js_replace_Cons_prefix [OF True assms(2)] rest by simp
    moreover have "occurrences (d @ rest) (CHR ''$'' # mb) = occurrences rest (CHR ''$'' # mb)"
      using assms(2) by (rule occurrences_append_plain)
    moreover have "occurrences ((CHR ''$'' # mb) @ rest) (CHR ''$'' # mb)
               = Suc (occurrences (mb @ rest) (CHR ''$'' # mb))"
      by simp
    moreover have "occurrences (mb @ rest) (CHR ''$'' # mb) = occurrences rest (CHR ''$'' # mb)"
      using assms(1) by (rule occurrences_append_plain)
    ultimately show ?thesis using rest by simp
  next
    case False
    have "js_replace (c # cs) (CHR ''$'' # mb) d = c # js_replace cs (CHR ''$'' # mb) d"
      using False assms(2) by (rule js_replace_Cons_other)
    moreover have "prefix mb (js_replace cs (CHR ''$'' # mb) d) \<longleftrightarrow> prefix mb cs"
      using assms(1,3,2) by (rule prefix_js_replace)
    ultimately show ?thesis using Cons.IH False by auto
  qed
qed

subsection \<open>Replacement texts that leave the placeholders alone\<close>

lemma placeholder_form:
  "t \<in> set placeholders \<Longrightarrow> \<exists>body. t = CHR ''$'' # body \<and> CHR ''$'' \<notin> set body"
  by (auto simp: placeholders_def)

lemma placeholder_bodies:
  "t \<in> set placeholders \<Longrightarrow> u \<in> set placeholders \<Longrightarrow> t \<noteq> u \<Longrightarrow> \<not> prefix (tl t) (tl u)"
  by (auto simp: placeholders_def)

lemma occurrences_replace_placeholder:
  assumes "inert d" and "pat \<in> set placeholders" and "tok \<in> set placeholders"
  shows "occurrences (js_replace s pat d) tok
         = (if tok = pat then occurrences s tok - 1 else occurrences s tok)"
proof -
  from assms(2) obtain mb where mb: "pat = CHR ''$'' # mb" "CHR ''$'' \<notin> set mb"
    using placeholder_form by blast
  from assms(3) obtain body where body: "tok = CHR ''$'' # body" "CHR ''$'' \<notin> set body"
    using placeholder_form by blast
  from assms(1) have plain: "CHR ''$'' \<notin> set d"
    by (simp add: inert_def)
  from assms(1,3) body have ap: "apart d body"
    by (auto simp: inert_def list_all_iff)
  show ?thesis
  proof (cases "tok = pat")
    case True
    with mb body have "body = mb" by simp
    with occurrences_js_replace_self [of mb d s] mb plain ap True show ?thesis by simp
  next
    case False
    with placeholder_bodies [OF assms(3,2)] placeholder_bodies [OF assms(2,3)] mb body
    have "\<not> prefix body mb" "\<not> prefix mb body" by auto
    with occurrences_js_replace_other [of body mb d s] mb body plain ap False
    show ?thesis by simp
  qed
qed

lemma chain_occurrences:
  assumes "inert a" and "inert b" and "inert c" and "inert e" and "tok \<in> set placeholders"
  shows "occurrences
           (js_replace (js_replace (js_replace (js_replace t ''${major}'' a) ''${minor}'' b)
              ''${patch}'' c) ''${prerelease}'' e) tok
         = occurrences t tok - 1"
proof -
  have m: "''${major}'' \<in> set placeholders" "''${minor}'' \<in> set placeholders"
    "''${patch}'' \<in> set placeholders" "''${prerelease}'' \<in> set placeholders"
    by (simp_all add: placeholders_def)
  have step: "occurrences (js_replace s pat d) tok
      = (if tok = pat then occurrences s tok - 1 else occurrences s tok)"
    if "inert d" and "pat \<in> set placeholders" for s pat d
    using occurrences_replace_placeholder [OF that assms(5)] .
  show ?thesis
    unfolding step [OF assms(4) m(4)] step [OF assms(3) m(3)] step [OF assms(2) m(2)]
      step [OF assms(1) m(1)]
    using assms(5) by (auto simp: placeholders_def)
qed

lemma inert_hd:
  assumes "d \<noteq> []" and "CHR ''$'' \<notin> set d" and "hd d \<notin> set ''{majorinptchels}''"
  shows "inert d"
proof -
  have a: "apart d body" if "set body \<subseteq> set ''{majorinptchels}''" for body
    using apart_hd [OF assms(1), of body] assms(3) that by blast
  have "apart d ''{major}''" "apart d ''{minor}''" "apart d ''{patch}''"
    "apart d ''{prerelease}''"
    by (rule a, simp)+
  then show ?thesis
    using assms(2) unfolding inert_def placeholders_def by (simp del: apart.simps)
qed

lemma number_toString_digits:
  "number_toString n \<noteq> [] \<and> set (number_toString n) \<subseteq> set ''0123456789''"
proof (induction n rule: number_toString.induct)
  case (1 n)
  have d: "digit_char k \<in> set ''0123456789''" if "k < 10" for k
    unfolding digit_char_def using that by (intro nth_mem) simp
  show ?case
  proof (cases "n < 10")
    case True
    with d [of n] show ?thesis by (subst (1 2) number_toString.simps) simp
  next
    case False
    with 1 d [of "n mod 10"] show ?thesis by (subst (1 2) number_toString.simps) simp
  qed
qed

lemma inert_number: "inert (number_toString n)"
proof (rule inert_hd)
  show "number_toString n \<noteq> []" using number_toString_digits by simp
  then have "hd (number_toString n) \<in> set ''0123456789''"
    using number_toString_digits [of n] hd_in_set by blast
  then show "hd (number_toString n) \<notin> set ''{majorinptchels}''" by auto
  show "CHR ''$'' \<notin> set (number_toString n)"
    using number_toString_digits [of n] by auto
qed

lemma inert_objc_number: "inert (objc_number n)"
proof (rule inert_hd)
  show "CHR ''$'' \<notin> set (objc_number n)"
    using number_toString_digits [of n] by (auto simp: objc_number_def)
qed (simp_all add: objc_number_def)

lemma inert_prerelease:
  assumes "plain_prerelease v"
  shows "inert (java_prerelease (prerelease v))" and "inert (objc_prerelease (prerelease v))"
    and "inert (cxx_prerelease (prerelease v))" and "inert (script_prerelease (prerelease v))"
proof -
  have null: "inert ''null''"
    by (simp add: inert_def placeholders_def)
  show "inert (java_prerelease (prerelease v))"
    using assms null
    by (auto simp: plain_prerelease_def java_prerelease_def split: option.splits intro!: inert_hd)
  show "inert (objc_prerelease (prerelease v))"
    using assms
    by (auto simp: plain_prerelease_def objc_prerelease_def split: option.splits intro!: inert_hd)
  show "inert (cxx_prerelease (prerelease v))"
    using assms
    by (auto simp: plain_prerelease_def cxx_prerelease_def split: option.splits intro!: inert_hd)
  show "inert (script_prerelease (prerelease v))"
    using assms null
    by (auto simp: plain_prerelease_def script_prerelease_def split: option.splits intro!: inert_hd)
qed

lemma render_occurrences:
  assumes "plain_prerelease v" and "tok \<in> set placeholders"
  shows "occurrences (render_java template v) tok = occurrences template tok - 1"
    and "occurrences (render_objc template v) tok = occurrences template tok - 1"
    and "occurrences (render_cxx template v) tok = occurrences template tok - 1"
    and "occurrences (render_script template v) tok = occurrences template tok - 1"
  unfolding render_java_def render_objc_def render_cxx_def render_script_def
  by (rule chain_occurrences [OF _ _ _ _ assms(2)];
      simp add: inert_number inert_objc_number inert_prerelease [OF assms(1)])+

subsection \<open>No placeholder is left\<close>

text \<open>
  C4, as amended. Each call of \<^verbatim>\<open>replace\<close> replaces the first occurrence of its
  placeholder and no other. For a version whose prerelease, when there is one, has no
  dollar sign, the output of each of the four renderers has, of each placeholder, one
  occurrence less than the template (none when the template has none). So the output is
  free of placeholders when every placeholder occurs at most once in the template.
\<close>

theorem placeholders_replaced_once:
  "plain_prerelease v \<longrightarrow>
     list_all
       (\<lambda>tok. occurrences (render_java template v) tok = occurrences template tok - 1 \<and>
              occurrences (render_objc template v) tok = occurrences template tok - 1 \<and>
              occurrences (render_cxx template v) tok = occurrences template tok - 1 \<and>
              occurrences (render_script template v) tok = occurrences template tok - 1)
       placeholders \<and>
     (list_all (\<lambda>tok. occurrences template tok \<le> 1) placeholders \<longrightarrow>
        list_all
          (\<lambda>tok. \<not> sublist tok (render_java template v) \<and>
                 \<not> sublist tok (render_objc template v) \<and>
                 \<not> sublist tok (render_cxx template v) \<and>
                 \<not> sublist tok (render_script template v))
          placeholders)"
proof
  assume plain: "plain_prerelease v"
  have less: "list_all
       (\<lambda>tok. occurrences (render_java template v) tok = occurrences template tok - 1 \<and>
              occurrences (render_objc template v) tok = occurrences template tok - 1 \<and>
              occurrences (render_cxx template v) tok = occurrences template tok - 1 \<and>
              occurrences (render_script template v) tok = occurrences template tok - 1)
       placeholders"
    unfolding list_all_iff using render_occurrences [OF plain] by blast
  have "list_all
          (\<lambda>tok. \<not> sublist tok (render_java template v) \<and>
                 \<not> sublist tok (render_objc template v) \<and>
                 \<not> sublist tok (render_cxx template v) \<and>
                 \<not> sublist tok (render_script template v))
          placeholders"
    if "list_all (\<lambda>tok. occurrences template tok \<le> 1) placeholders"
    using that render_occurrences [OF plain, of _ template]
    unfolding list_all_iff occurrences_sublist [symmetric] by auto
  with less show "list_all
       (\<lambda>tok. occurrences (render_java template v) tok = occurrences template tok - 1 \<and>
              occurrences (render_objc template v) tok = occurrences template tok - 1 \<and>
              occurrences (render_cxx template v) tok = occurrences template tok - 1 \<and>
              occurrences (render_script template v) tok = occurrences template tok - 1)
       placeholders \<and>
     (list_all (\<lambda>tok. occurrences template tok \<le> 1) placeholders \<longrightarrow>
        list_all
          (\<lambda>tok. \<not> sublist tok (render_java template v) \<and>
                 \<not> sublist tok (render_objc template v) \<and>
                 \<not> sublist tok (render_cxx template v) \<and>
                 \<not> sublist tok (render_script template v))
          placeholders)"
    by blast
qed

theorem placeholders_replaced_once_witness:
  "plain_prerelease demo_candidate \<and>
   list_all (\<lambda>tok. occurrences demo_template tok \<le> 1) placeholders \<and>
   list_all
     (\<lambda>tok. \<not> sublist tok (render_java demo_template demo_candidate) \<and>
            \<not> sublist tok (render_objc demo_template demo_candidate) \<and>
            \<not> sublist tok (render_cxx demo_template demo_candidate) \<and>
            \<not> sublist tok (render_script demo_template demo_candidate))
     placeholders \<and>
   render_script demo_template demo_candidate
     = ''major 0, minor 75, patch 0, prerelease '' @ [CHR 0x27] @ ''rc.1'' @ [CHR 0x27]"
proof -
  have plain: "plain_prerelease demo_candidate"
    and once: "list_all (\<lambda>tok. occurrences demo_template tok \<le> 1) placeholders"
    and script: "render_script demo_template demo_candidate
      = ''major 0, minor 75, patch 0, prerelease '' @ [CHR 0x27] @ ''rc.1'' @ [CHR 0x27]"
    by code_simp+
  show ?thesis
    using plain once script placeholders_replaced_once [of demo_candidate demo_template]
    by blast
qed

text \<open>
  The claim as it stands fails on a template with a placeholder twice, of which the
  second occurrence stays, and on a prerelease with a replacement pattern: \<^verbatim>\<open>$&\<close>
  puts the placeholder itself back into the output.
\<close>

theorem placeholder_left_counterexample:
  "render_java ''${major}.${major}'' demo_version = ''0.${major}'' \<and>
   occurrences (render_java ''${major}.${major}'' demo_version) ''${major}'' = 1 \<and>
   render_script ''${prerelease}'' (demo_version\<lparr>prerelease := Some ''$&''\<rparr>)
     = [CHR 0x27] @ ''${prerelease}'' @ [CHR 0x27] \<and>
   occurrences (render_script ''${prerelease}'' (demo_version\<lparr>prerelease := Some ''$&''\<rparr>))
     ''${prerelease}'' = 1"
  by code_simp

subsection \<open>The literal of the prerelease\<close>

lemma js_replace_found:
  "indexOf s pat = Some i \<Longrightarrow> CHR ''$'' \<notin> set d \<Longrightarrow>
   js_replace s pat d = take i s @ d @ drop (i + length pat) s"
  by (simp add: js_replace_def getSubstitution_plain)

lemma indexOf_le: "indexOf s pat = Some i \<Longrightarrow> i \<le> length s"
  by (induction s arbitrary: i) (auto split: if_splits)

lemma render_numbers_keeps:
  assumes "\<And>n. inert (f n)"
  shows "occurrences (render_numbers f t v) ''${prerelease}'' = occurrences t ''${prerelease}''"
  unfolding render_numbers_def
  by (simp add: occurrences_replace_placeholder [OF assms] placeholders_def)

lemma replace_prerelease:
  assumes "sublist ''${prerelease}'' t" and "\<And>n. inert (f n)"
  shows "\<exists>b a. render_numbers f t v = b @ ''${prerelease}'' @ a \<and>
           indexOf (render_numbers f t v) ''${prerelease}'' = Some (length b) \<and>
           (\<forall>d. CHR ''$'' \<notin> set d \<longrightarrow>
              js_replace (render_numbers f t v) ''${prerelease}'' d = b @ d @ a)"
proof -
  let ?s = "render_numbers f t v"
  from assms(1) have "occurrences t ''${prerelease}'' \<noteq> 0"
    by (simp add: occurrences_sublist)
  then have "occurrences ?s ''${prerelease}'' \<noteq> 0"
    by (simp add: render_numbers_keeps [OF assms(2)])
  then obtain i where i: "indexOf ?s ''${prerelease}'' = Some i"
    using indexOf_None [of ?s "''${prerelease}''"] by (cases "indexOf ?s ''${prerelease}''") auto
  let ?b = "take i ?s" and ?a = "drop (i + length ''${prerelease}'') ?s"
  from indexOf_split [OF i] have s: "?s = ?b @ ''${prerelease}'' @ ?a" .
  have len: "length ?b = i"
    using indexOf_le [OF i] by simp
  show ?thesis
  proof (rule exI [of _ ?b], rule exI [of _ ?a], intro conjI allI impI)
    show "?s = ?b @ ''${prerelease}'' @ ?a" by (rule s)
    show "indexOf ?s ''${prerelease}'' = Some (length ?b)" by (simp only: len i)
    fix d :: string
    assume "CHR ''$'' \<notin> set d"
    with i show "js_replace ?s ''${prerelease}'' d = ?b @ d @ ?a" by (rule js_replace_found)
  qed
qed

text \<open>
  Where the literal goes. Take a template that has the placeholder of the prerelease.
  After the three numbers have been put in, the placeholder is still there, and for a
  version with no prerelease, or with one that has no dollar sign, the renderer puts its
  literal in the place of the first occurrence: with no prerelease \<^verbatim>\<open>null\<close> in the
  Java file, \<^verbatim>\<open>[NSNull null]\<close> in the Objective-C file, the empty string literal in the
  C++ header and \<^verbatim>\<open>null\<close> in the JavaScript file; with a prerelease the prerelease
  between double quotes, after \<^verbatim>\<open>@\<close> and between double quotes, between double
  quotes, and between single quotes.
\<close>

lemma prerelease_literal:
  "plain_prerelease v \<and> sublist ''${prerelease}'' template \<longrightarrow>
     (\<exists>b a. render_numbers number_toString template v = b @ ''${prerelease}'' @ a \<and>
            indexOf (render_numbers number_toString template v) ''${prerelease}''
              = Some (length b) \<and>
            render_java template v =
              b @ (case prerelease v of
                     None \<Rightarrow> ''null''
                   | Some p \<Rightarrow> [CHR 0x22] @ p @ [CHR 0x22]) @ a \<and>
            render_cxx template v =
              b @ (case prerelease v of
                     None \<Rightarrow> [CHR 0x22, CHR 0x22]
                   | Some p \<Rightarrow> [CHR 0x22] @ p @ [CHR 0x22]) @ a \<and>
            render_script template v =
              b @ (case prerelease v of
                     None \<Rightarrow> ''null''
                   | Some p \<Rightarrow> [CHR 0x27] @ p @ [CHR 0x27]) @ a) \<and>
     (\<exists>b a. render_numbers objc_number template v = b @ ''${prerelease}'' @ a \<and>
            indexOf (render_numbers objc_number template v) ''${prerelease}''
              = Some (length b) \<and>
            render_objc template v =
              b @ (case prerelease v of
                     None \<Rightarrow> ''[NSNull null]''
                   | Some p \<Rightarrow> [CHR ''@'', CHR 0x22] @ p @ [CHR 0x22]) @ a)"
proof
  assume h: "plain_prerelease v \<and> sublist ''${prerelease}'' template"
  then have plain: "plain_prerelease v" and sub: "sublist ''${prerelease}'' template"
    by simp_all
  have lits:
    "CHR ''$'' \<notin> set (java_prerelease (prerelease v))"
    "CHR ''$'' \<notin> set (cxx_prerelease (prerelease v))"
    "CHR ''$'' \<notin> set (script_prerelease (prerelease v))"
    "CHR ''$'' \<notin> set (objc_prerelease (prerelease v))"
    using inert_prerelease [OF plain] by (simp_all add: inert_def)
  have forms:
    "java_prerelease (prerelease v)
       = (case prerelease v of None \<Rightarrow> ''null'' | Some p \<Rightarrow> [CHR 0x22] @ p @ [CHR 0x22])"
    "cxx_prerelease (prerelease v)
       = (case prerelease v of None \<Rightarrow> [CHR 0x22, CHR 0x22]
          | Some p \<Rightarrow> [CHR 0x22] @ p @ [CHR 0x22])"
    "script_prerelease (prerelease v)
       = (case prerelease v of None \<Rightarrow> ''null'' | Some p \<Rightarrow> [CHR 0x27] @ p @ [CHR 0x27])"
    "objc_prerelease (prerelease v)
       = (case prerelease v of None \<Rightarrow> ''[NSNull null]''
          | Some p \<Rightarrow> [CHR ''@'', CHR 0x22] @ p @ [CHR 0x22])"
    by (simp_all add: java_prerelease_def cxx_prerelease_def script_prerelease_def
        objc_prerelease_def split: option.splits)
  have renders:
    "render_java template v
       = js_replace (render_numbers number_toString template v) ''${prerelease}''
           (java_prerelease (prerelease v))"
    "render_cxx template v
       = js_replace (render_numbers number_toString template v) ''${prerelease}''
           (cxx_prerelease (prerelease v))"
    "render_script template v
       = js_replace (render_numbers number_toString template v) ''${prerelease}''
           (script_prerelease (prerelease v))"
    "render_objc template v
       = js_replace (render_numbers objc_number template v) ''${prerelease}''
           (objc_prerelease (prerelease v))"
    by (simp_all add: render_java_def render_cxx_def render_script_def render_objc_def
        render_numbers_def)
  from replace_prerelease [where f = number_toString and v = v, OF sub inert_number] obtain b a where plainly:
    "render_numbers number_toString template v = b @ ''${prerelease}'' @ a"
    "indexOf (render_numbers number_toString template v) ''${prerelease}'' = Some (length b)"
    "\<And>d. CHR ''$'' \<notin> set d \<Longrightarrow>
       js_replace (render_numbers number_toString template v) ''${prerelease}'' d = b @ d @ a"
    by blast
  from replace_prerelease [where f = objc_number and v = v, OF sub inert_objc_number] obtain b' a' where boxed:
    "render_numbers objc_number template v = b' @ ''${prerelease}'' @ a'"
    "indexOf (render_numbers objc_number template v) ''${prerelease}'' = Some (length b')"
    "\<And>d. CHR ''$'' \<notin> set d \<Longrightarrow>
       js_replace (render_numbers objc_number template v) ''${prerelease}'' d = b' @ d @ a'"
    by blast
  have "render_java template v = b @ java_prerelease (prerelease v) @ a"
    "render_cxx template v = b @ cxx_prerelease (prerelease v) @ a"
    "render_script template v = b @ script_prerelease (prerelease v) @ a"
    "render_objc template v = b' @ objc_prerelease (prerelease v) @ a'"
    by (simp_all only: renders plainly(3) [OF lits(1)] plainly(3) [OF lits(2)]
        plainly(3) [OF lits(3)] boxed(3) [OF lits(4)])
  then have
    "render_java template v =
       b @ (case prerelease v of None \<Rightarrow> ''null'' | Some p \<Rightarrow> [CHR 0x22] @ p @ [CHR 0x22]) @ a"
    "render_cxx template v =
       b @ (case prerelease v of None \<Rightarrow> [CHR 0x22, CHR 0x22]
            | Some p \<Rightarrow> [CHR 0x22] @ p @ [CHR 0x22]) @ a"
    "render_script template v =
       b @ (case prerelease v of None \<Rightarrow> ''null'' | Some p \<Rightarrow> [CHR 0x27] @ p @ [CHR 0x27]) @ a"
    "render_objc template v =
       b' @ (case prerelease v of None \<Rightarrow> ''[NSNull null]''
             | Some p \<Rightarrow> [CHR ''@'', CHR 0x22] @ p @ [CHR 0x22]) @ a'"
    by (simp_all only: forms)
  with plainly(1,2) boxed(1,2)
  show "(\<exists>b a. render_numbers number_toString template v = b @ ''${prerelease}'' @ a \<and>
            indexOf (render_numbers number_toString template v) ''${prerelease}''
              = Some (length b) \<and>
            render_java template v =
              b @ (case prerelease v of
                     None \<Rightarrow> ''null''
                   | Some p \<Rightarrow> [CHR 0x22] @ p @ [CHR 0x22]) @ a \<and>
            render_cxx template v =
              b @ (case prerelease v of
                     None \<Rightarrow> [CHR 0x22, CHR 0x22]
                   | Some p \<Rightarrow> [CHR 0x22] @ p @ [CHR 0x22]) @ a \<and>
            render_script template v =
              b @ (case prerelease v of
                     None \<Rightarrow> ''null''
                   | Some p \<Rightarrow> [CHR 0x27] @ p @ [CHR 0x27]) @ a) \<and>
     (\<exists>b a. render_numbers objc_number template v = b @ ''${prerelease}'' @ a \<and>
            indexOf (render_numbers objc_number template v) ''${prerelease}''
              = Some (length b) \<and>
            render_objc template v =
              b @ (case prerelease v of
                     None \<Rightarrow> ''[NSNull null]''
                   | Some p \<Rightarrow> [CHR ''@'', CHR 0x22] @ p @ [CHR 0x22]) @ a)"
    by blast
qed

lemma prerelease_literal_demo:
  "plain_prerelease demo_version \<and> plain_prerelease demo_candidate \<and>
   sublist ''${prerelease}'' demo_template \<and>
   ((\<exists>b a. render_numbers number_toString demo_template demo_version
                = b @ ''${prerelease}'' @ a \<and>
             indexOf (render_numbers number_toString demo_template demo_version) ''${prerelease}''
               = Some (length b) \<and>
             render_java demo_template demo_version = b @ ''null'' @ a \<and>
             render_cxx demo_template demo_version = b @ [CHR 0x22, CHR 0x22] @ a \<and>
             render_script demo_template demo_version = b @ ''null'' @ a) \<and>
      (\<exists>b a. render_numbers objc_number demo_template demo_version
                = b @ ''${prerelease}'' @ a \<and>
             indexOf (render_numbers objc_number demo_template demo_version) ''${prerelease}''
               = Some (length b) \<and>
             render_objc demo_template demo_version = b @ ''[NSNull null]'' @ a)) \<and>
   ((\<exists>b a. render_numbers number_toString demo_template demo_candidate
                = b @ ''${prerelease}'' @ a \<and>
             indexOf (render_numbers number_toString demo_template demo_candidate)
               ''${prerelease}'' = Some (length b) \<and>
             render_java demo_template demo_candidate
               = b @ ([CHR 0x22] @ ''rc.1'' @ [CHR 0x22]) @ a \<and>
             render_cxx demo_template demo_candidate
               = b @ ([CHR 0x22] @ ''rc.1'' @ [CHR 0x22]) @ a \<and>
             render_script demo_template demo_candidate
               = b @ ([CHR 0x27] @ ''rc.1'' @ [CHR 0x27]) @ a) \<and>
      (\<exists>b a. render_numbers objc_number demo_template demo_candidate
                = b @ ''${prerelease}'' @ a \<and>
             indexOf (render_numbers objc_number demo_template demo_candidate)
               ''${prerelease}'' = Some (length b) \<and>
             render_objc demo_template demo_candidate
               = b @ ([CHR ''@'', CHR 0x22] @ ''rc.1'' @ [CHR 0x22]) @ a)) \<and>
   render_java demo_template demo_version = ''major 0, minor 75, patch 0, prerelease null'' \<and>
   render_objc demo_template demo_candidate
     = ''major @(0), minor @(75), patch @(0), prerelease @'' @ [CHR 0x22] @ ''rc.1'' @ [CHR 0x22]"
proof -
  have plain: "plain_prerelease demo_version" "plain_prerelease demo_candidate"
    and outputs:
      "render_java demo_template demo_version = ''major 0, minor 75, patch 0, prerelease null''"
      "render_objc demo_template demo_candidate
         = ''major @(0), minor @(75), patch @(0), prerelease @'' @ [CHR 0x22] @ ''rc.1''
             @ [CHR 0x22]"
    and pre: "prerelease demo_version = None" "prerelease demo_candidate = Some ''rc.1''"
    by code_simp+
  have "occurrences demo_template ''${prerelease}'' = 1"
    by code_simp
  then have sub: "sublist ''${prerelease}'' demo_template"
    using occurrences_sublist [of demo_template "''${prerelease}''"] by simp
  have absent: "(\<exists>b a. render_numbers number_toString demo_template demo_version
                = b @ ''${prerelease}'' @ a \<and>
             indexOf (render_numbers number_toString demo_template demo_version) ''${prerelease}''
               = Some (length b) \<and>
             render_java demo_template demo_version = b @ ''null'' @ a \<and>
             render_cxx demo_template demo_version = b @ [CHR 0x22, CHR 0x22] @ a \<and>
             render_script demo_template demo_version = b @ ''null'' @ a) \<and>
      (\<exists>b a. render_numbers objc_number demo_template demo_version
                = b @ ''${prerelease}'' @ a \<and>
             indexOf (render_numbers objc_number demo_template demo_version) ''${prerelease}''
               = Some (length b) \<and>
             render_objc demo_template demo_version = b @ ''[NSNull null]'' @ a)"
    using prerelease_literal [of demo_version demo_template] plain(1) sub
    unfolding pre option.case by blast
  have present: "(\<exists>b a. render_numbers number_toString demo_template demo_candidate
                = b @ ''${prerelease}'' @ a \<and>
             indexOf (render_numbers number_toString demo_template demo_candidate)
               ''${prerelease}'' = Some (length b) \<and>
             render_java demo_template demo_candidate
               = b @ ([CHR 0x22] @ ''rc.1'' @ [CHR 0x22]) @ a \<and>
             render_cxx demo_template demo_candidate
               = b @ ([CHR 0x22] @ ''rc.1'' @ [CHR 0x22]) @ a \<and>
             render_script demo_template demo_candidate
               = b @ ([CHR 0x27] @ ''rc.1'' @ [CHR 0x27]) @ a) \<and>
      (\<exists>b a. render_numbers objc_number demo_template demo_candidate
                = b @ ''${prerelease}'' @ a \<and>
             indexOf (render_numbers objc_number demo_template demo_candidate)
               ''${prerelease}'' = Some (length b) \<and>
             render_objc demo_template demo_candidate
               = b @ ([CHR ''@'', CHR 0x22] @ ''rc.1'' @ [CHR 0x22]) @ a)"
    using prerelease_literal [of demo_candidate demo_template] plain(2) sub
    unfolding pre option.case by blast
  from plain sub absent present outputs show ?thesis
    by blast
qed

text \<open>
  C5. With no prerelease each renderer puts its sentinel in the place of the
  placeholder, and with a prerelease the quoted literal of its format; the lemma above
  shows it of every version without a prerelease and of every prerelease without a
  dollar sign. The code does not do it for a prerelease with a replacement pattern: it
  builds the quoted literal and hands it to \<^verbatim>\<open>replace\<close> as the replacement text,
  where \<^verbatim>\<open>$&\<close> stands for the text that matched. For the prerelease \<^verbatim>\<open>$&\<close> each
  renderer writes the placeholder itself between the quotes of its format, not the
  prerelease.
\<close>

theorem prerelease_pattern_divergence:
  "prerelease demo_pattern = Some ''$&'' \<and>
   render_java ''${prerelease}'' demo_pattern = [CHR 0x22] @ ''${prerelease}'' @ [CHR 0x22] \<and>
   render_java ''${prerelease}'' demo_pattern \<noteq> [CHR 0x22] @ ''$&'' @ [CHR 0x22] \<and>
   render_objc ''${prerelease}'' demo_pattern
     = [CHR ''@'', CHR 0x22] @ ''${prerelease}'' @ [CHR 0x22] \<and>
   render_objc ''${prerelease}'' demo_pattern \<noteq> [CHR ''@'', CHR 0x22] @ ''$&'' @ [CHR 0x22] \<and>
   render_cxx ''${prerelease}'' demo_pattern = [CHR 0x22] @ ''${prerelease}'' @ [CHR 0x22] \<and>
   render_cxx ''${prerelease}'' demo_pattern \<noteq> [CHR 0x22] @ ''$&'' @ [CHR 0x22] \<and>
   render_script ''${prerelease}'' demo_pattern = [CHR 0x27] @ ''${prerelease}'' @ [CHR 0x27] \<and>
   render_script ''${prerelease}'' demo_pattern \<noteq> [CHR 0x27] @ ''$&'' @ [CHR 0x27] \<and>
   render_java demo_template demo_pattern
     = ''major 0, minor 75, patch 0, prerelease '' @ [CHR 0x22] @ ''${prerelease}'' @ [CHR 0x22]"
  by code_simp

subsection \<open>Rendering again\<close>

lemma paths_distinct:
  "distinct [java_template, objc_template, cxx_template, script_template,
             java_file, objc_file, cxx_file, script_file]"
  by code_simp

text \<open>
  C9. A renderer is a function of the template and the version record, so the same
  template and the same record give the same output. In the working directory, the
  four files that \<^verbatim>\<open>setSource\<close> writes are the renderings of the four templates, which
  it does not write; running it again with the same record writes the same four files
  and leaves the state as the first run left it.
\<close>

theorem setSource_repeatable:
  "setSource v (setSource v st) = setSource v st \<and>
   files (setSource v st) java_file = Some (render_java (cat st java_template) v) \<and>
   files (setSource v st) objc_file = Some (render_objc (cat st objc_template) v) \<and>
   files (setSource v st) cxx_file = Some (render_cxx (cat st cxx_template) v) \<and>
   files (setSource v st) script_file = Some (render_script (cat st script_template) v)"
  using paths_distinct
  by (auto simp: setSource_def Let_def writeFileSync_def cat_def fun_eq_iff)

end
